theory Spec2Isabelle
  imports Main
begin

section \<open>JavaScript strings\<close>

text \<open>
  A JavaScript string is a sequence of UTF-16 code units; \<open>length\<close>, \<open>trim\<close>,
  \<open>split\<close> and regular expressions without the \<open>u\<close> flag all work on code
  units. A code unit is modelled as a natural number, a string as the list of its code
  units. \<open>js\<close> turns an ASCII literal into such a string.
\<close>

type_synonym jschar = nat
type_synonym jsstring = "jschar list"

definition js :: "string \<Rightarrow> jsstring" where
  "js s = map of_char s"

text \<open>\<open>s.startsWith(p)\<close>.\<close>

definition startsWith :: "jsstring \<Rightarrow> jsstring \<Rightarrow> bool" where
  "startsWith s p \<longleftrightarrow> take (length p) s = p"

text \<open>
  The line terminators of ECMAScript (LF, CR, LS, PS): in a regular expression with the
  \<open>m\<close> flag \<open>^\<close> matches after one of them, \<open>$\<close> before one of them, and
  \<open>.\<close> matches every code unit but them.
\<close>

definition isLineTerminator :: "jschar \<Rightarrow> bool" where
  "isLineTerminator c \<longleftrightarrow> c = 0x0A \<or> c = 0x0D \<or> c = 0x2028 \<or> c = 0x2029"

text \<open>What \<open>trim\<close> strips: the white space code points and the line terminators.\<close>

definition isWhiteSpace :: "jschar \<Rightarrow> bool" where
  "isWhiteSpace c \<longleftrightarrow>
     c = 0x09 \<or> c = 0x0B \<or> c = 0x0C \<or> c = 0x20 \<or> c = 0xA0 \<or> c = 0x1680
     \<or> (0x2000 \<le> c \<and> c \<le> 0x200A) \<or> c = 0x202F \<or> c = 0x205F \<or> c = 0x3000
     \<or> c = 0xFEFF \<or> isLineTerminator c"

definition trim :: "jsstring \<Rightarrow> jsstring" where
  "trim s = rev (dropWhile isWhiteSpace (rev (dropWhile isWhiteSpace s)))"

text \<open>The character classes \<open>[a-z]\<close> and \<open>\d\<close>.\<close>

definition isLowerAZ :: "jschar \<Rightarrow> bool" where
  "isLowerAZ c \<longleftrightarrow> 0x61 \<le> c \<and> c \<le> 0x7A"

definition isDigit :: "jschar \<Rightarrow> bool" where
  "isDigit c \<longleftrightarrow> 0x30 \<le> c \<and> c \<le> 0x39"

text \<open>A number in a template literal: the decimal digits of a non-negative integer.\<close>

function showNat :: "nat \<Rightarrow> jsstring" where
  "showNat n = (if n < 10 then [0x30 + n] else showNat (n div 10) @ [0x30 + n mod 10])"
  by pat_completeness auto
termination
  by (relation "measure (\<lambda>n. n)") auto

declare showNat.simps [simp del]

text \<open>
  A cell of type \<open>string | null\<close> (or \<open>string | undefined\<close>) is falsy when it is absent
  or the empty string; \<open>x || d\<close> is \<open>d\<close> for a falsy \<open>x\<close>.
\<close>

definition isFalsy :: "jsstring option \<Rightarrow> bool" where
  "isFalsy x \<longleftrightarrow> (case x of None \<Rightarrow> True | Some s \<Rightarrow> s = [])"

definition orDefault :: "jsstring option \<Rightarrow> jsstring \<Rightarrow> jsstring" where
  "orDefault x d = (case x of None \<Rightarrow> d | Some s \<Rightarrow> if s = [] then d else s)"


section \<open>Global replacement\<close>

text \<open>
  \<open>s.replace(/re/g, template)\<close> scans the text from left to right. At each position it
  tries the pattern; on a match it emits the instantiated template and goes on after the
  match, otherwise it copies one code unit and goes on at the next position.

  A \<open>matcher\<close> tries one pattern at the start of the remaining text and, on success,
  returns the instantiated template and the text after the match. No pattern of
  \<open>standardizeResponse\<close> matches the empty string (lemmas \<open>match*_consumes\<close> below), so
  the remaining text is always shorter after a match and the test on the lengths in
  \<open>replaceAll\<close> always succeeds; it is there for the function to be total for every
  matcher.
\<close>

type_synonym matcher = "jsstring \<Rightarrow> (jsstring \<times> jsstring) option"

function replaceAll :: "matcher \<Rightarrow> jsstring \<Rightarrow> jsstring" where
  "replaceAll m [] = []"
| "replaceAll m (c # r) =
     (case m (c # r) of
        None \<Rightarrow> c # replaceAll m r
      | Some (out, rest) \<Rightarrow>
          if length rest \<le> length r then out @ replaceAll m rest
          else c # replaceAll m r)"
  by pat_completeness auto
termination
  by (relation "measure (\<lambda>(m, s). length s)") auto

text \<open>
  A pattern of the form \<open>/^prefix ?(.*$)/gm\<close> starts at the beginning of a line and
  runs to its end, so its global replacement rewrites each line on its own: the text is
  cut at the line terminators, the line function is applied to each line, and the
  terminators stay where they are. \<open>cur\<close> collects the current line.
\<close>

fun mapLines :: "(jsstring \<Rightarrow> jsstring) \<Rightarrow> jsstring \<Rightarrow> jsstring \<Rightarrow> jsstring" where
  "mapLines f cur [] = f cur"
| "mapLines f cur (c # r) =
     (if isLineTerminator c then f cur @ c # mapLines f [] r
      else mapLines f (cur @ [c]) r)"

definition replaceLines :: "(jsstring \<Rightarrow> jsstring) \<Rightarrow> jsstring \<Rightarrow> jsstring" where
  "replaceLines f s = mapLines f [] s"


section \<open>The response normalizer\<close>

subsection \<open>The patterns\<close>

text \<open>\<open>/\r\n/g\<close> with template \<open>'\n'\<close>.\<close>

definition matchCRLF :: matcher where
  "matchCRLF s = (if startsWith s [0x0D, 0x0A] then Some ([0x0A], drop 2 s) else None)"

text \<open>\<open>/\n{3,}/g\<close> with template \<open>'\n\n'\<close>: the quantifier is greedy and takes the whole run.\<close>

definition matchNewlines :: matcher where
  "matchNewlines s =
     (let n = length (takeWhile (\<lambda>c. c = 0x0A) s)
      in if 3 \<le> n then Some ([0x0A, 0x0A], drop n s) else None)"

text \<open>The corner brackets U+300C and U+300D that mark code.\<close>

definition openBracket :: jschar where
  "openBracket = 0x300C"

definition closeBracket :: jschar where
  "closeBracket = 0x300D"

definition fence :: jsstring where
  "fence = [0x60, 0x60, 0x60]"

text \<open>
  The lazy group \<open>([\s\S]*?)\<close> followed by the closing fence: the shortest text up to
  the first three backticks, and what follows them.
\<close>

fun findFence :: "jsstring \<Rightarrow> (jsstring \<times> jsstring) option" where
  "findFence [] = None"
| "findFence (c # r) =
     (if startsWith (c # r) fence then Some ([], drop 3 (c # r))
      else (case findFence r of
              None \<Rightarrow> None
            | Some (inner, rest) \<Rightarrow> Some (c # inner, rest)))"

text \<open>
  \<open>/```[a-z]*\n([\s\S]*?)```/g\<close> with template \<open>'\<open>$1\<close>'\<close> between the corner
  brackets. After the opening fence \<open>[a-z]*\<close> takes every lower-case letter (a shorter
  run would be followed by a letter, not by the line feed the pattern asks for).
\<close>

definition matchCodeBlock :: matcher where
  "matchCodeBlock s =
     (if startsWith s fence then
        (case dropWhile isLowerAZ (drop 3 s) of
           [] \<Rightarrow> None
         | c # r \<Rightarrow>
             if c = 0x0A then
               (case findFence r of
                  None \<Rightarrow> None
                | Some (inner, rest) \<Rightarrow> Some (openBracket # inner @ [closeBracket], rest))
             else None)
      else None)"

text \<open>
  The patterns \<open>/d([^c]+)d/g\<close> where the delimiter \<open>d\<close> is one or two copies of the
  code unit \<open>c\<close>: \<open>`([^`]+)`\<close>, \<open>\*\*([^*]+)\*\*\<close>, \<open>__([^_]+)__\<close>,
  \<open>\*([^*]+)\*\<close> and \<open>_([^_]+)_\<close>. The group is greedy and cannot contain \<open>c\<close>, so
  it is the whole run of code units other than \<open>c\<close>, which must not be empty and must be
  followed by the delimiter. The template is the group between \<open>l\<close> and \<open>r\<close>.
\<close>

definition matchDelimited :: "jsstring \<Rightarrow> jschar \<Rightarrow> jsstring \<Rightarrow> jsstring \<Rightarrow> matcher" where
  "matchDelimited d c l r s =
     (if startsWith s d then
        (let body = takeWhile (\<lambda>x. x \<noteq> c) (drop (length d) s);
             rest = dropWhile (\<lambda>x. x \<noteq> c) (drop (length d) s)
         in if body \<noteq> [] \<and> startsWith rest d
            then Some (l @ body @ r, drop (length d) rest) else None)
      else None)"

text \<open>\<open>/\[([^\]]+)\]\(([^)]+)\)/g\<close> with template \<open>'$1'\<close>.\<close>

definition matchLink :: matcher where
  "matchLink s =
     (case s of
        [] \<Rightarrow> None
      | c # r \<Rightarrow>
          if c = 0x5B then
            (let label = takeWhile (\<lambda>x. x \<noteq> 0x5D) r;
                 r1 = dropWhile (\<lambda>x. x \<noteq> 0x5D) r
             in if label \<noteq> [] \<and> startsWith r1 [0x5D, 0x28] then
                  (let url = takeWhile (\<lambda>x. x \<noteq> 0x29) (drop 2 r1);
                       r2 = dropWhile (\<lambda>x. x \<noteq> 0x29) (drop 2 r1)
                   in if url \<noteq> [] \<and> startsWith r2 [0x29] then Some (label, drop 1 r2)
                      else None)
                else None)
          else None)"

text \<open>The optional space \<open>' ?'\<close> in front of the group \<open>(.*$)\<close>.\<close>

definition dropOptionalSpace :: "jsstring \<Rightarrow> jsstring" where
  "dropOptionalSpace s = (if startsWith s [0x20] then drop 1 s else s)"

text \<open>
  \<open>/^p ?(.*$)/gm\<close> with template \<open>'g $1'\<close> on one line: a line that starts with
  \<open>p\<close> becomes the glyph, a space and the rest of the line.
\<close>

definition prefixRule :: "jsstring \<Rightarrow> jsstring \<Rightarrow> jsstring \<Rightarrow> jsstring" where
  "prefixRule p g line =
     (if startsWith line p then g @ 0x20 # dropOptionalSpace (drop (length p) line)
      else line)"

text \<open>
  The glyphs, as UTF-16: small blue diamond U+1F539, large blue diamond U+1F537,
  diamond with a dot U+1F4A0, bullet U+2022, round pushpin U+1F4CD, memo U+1F4DD.
\<close>

definition glyphSmall :: jsstring where
  "glyphSmall = [0xD83D, 0xDD39]"

definition glyphMedium :: jsstring where
  "glyphMedium = [0xD83D, 0xDD37]"

definition glyphLarge :: jsstring where
  "glyphLarge = [0xD83D, 0xDCA0]"

definition glyphBullet :: jsstring where
  "glyphBullet = [0x2022]"

definition glyphPin :: jsstring where
  "glyphPin = [0xD83D, 0xDCCD]"

definition glyphNote :: jsstring where
  "glyphNote = [0xD83D, 0xDCDD]"

text \<open>\<open>/^(\d+)\. ?(.*$)/gm\<close> with template \<open>'<pin> $1. $2'\<close> on one line.\<close>

definition numberedRule :: "jsstring \<Rightarrow> jsstring" where
  "numberedRule line =
     (let digits = takeWhile isDigit line;
          r = dropWhile isDigit line
      in if digits \<noteq> [] \<and> startsWith r [0x2E]
         then glyphPin @ 0x20 # digits @ [0x2E, 0x20] @ dropOptionalSpace (drop 1 r)
         else line)"

text \<open>\<open>s.split('\n')\<close> and \<open>lines.join(sep)\<close>.\<close>

fun splitLines :: "jsstring \<Rightarrow> jsstring \<Rightarrow> jsstring list" where
  "splitLines cur [] = [cur]"
| "splitLines cur (c # r) =
     (if c = 0x0A then cur # splitLines [] r else splitLines (cur @ [c]) r)"

fun joinLines :: "jsstring \<Rightarrow> jsstring list \<Rightarrow> jsstring" where
  "joinLines sep [] = []"
| "joinLines sep [l] = l"
| "joinLines sep (l # ls) = l @ sep @ joinLines sep ls"

subsection \<open>The steps of \<open>standardizeResponse\<close>, in the order of the source\<close>

text \<open>\<open>text.trim().replace(/\r\n/g, '\n').replace(/\n{3,}/g, '\n\n')\<close>\<close>

definition cleanUp :: "jsstring \<Rightarrow> jsstring" where
  "cleanUp text = replaceAll matchNewlines (replaceAll matchCRLF (trim text))"

definition codeBlocks :: "jsstring \<Rightarrow> jsstring" where
  "codeBlocks s = replaceAll matchCodeBlock s"

text \<open>The headings: \<open>###\<close> first, then \<open>##\<close>, then \<open>#\<close>.\<close>

definition headings :: "jsstring \<Rightarrow> jsstring" where
  "headings s =
     replaceLines (prefixRule [0x23] glyphLarge)
       (replaceLines (prefixRule [0x23, 0x23] glyphMedium)
         (replaceLines (prefixRule [0x23, 0x23, 0x23] glyphSmall) s))"

text \<open>The lists: \<open>*\<close>, then \<open>-\<close>, then the numbered items.\<close>

definition listMarkers :: "jsstring \<Rightarrow> jsstring" where
  "listMarkers s =
     replaceLines numberedRule
       (replaceLines (prefixRule [0x2D] glyphBullet)
         (replaceLines (prefixRule [0x2A] glyphBullet) s))"

text \<open>The quotes \<open>/^> ?(.*$)/gm\<close>, then the inline code.\<close>

definition quoteNotes :: "jsstring \<Rightarrow> jsstring" where
  "quoteNotes s = replaceLines (prefixRule [0x3E] glyphNote) s"

definition inlineCode :: "jsstring \<Rightarrow> jsstring" where
  "inlineCode s = replaceAll (matchDelimited [0x60] 0x60 [openBracket] [closeBracket]) s"

text \<open>Bold with stars, bold with underscores, italic with a star, italic with an underscore.\<close>

definition emphasis :: "jsstring \<Rightarrow> jsstring" where
  "emphasis s =
     replaceAll (matchDelimited [0x5F] 0x5F [] [])
       (replaceAll (matchDelimited [0x2A] 0x2A [] [])
         (replaceAll (matchDelimited [0x5F, 0x5F] 0x5F [] [])
           (replaceAll (matchDelimited [0x2A, 0x2A] 0x2A [] []) s)))"

definition links :: "jsstring \<Rightarrow> jsstring" where
  "links s = replaceAll matchLink s"

text \<open>\<open>.split('\n').map(line => line.trim()).filter(line => line).join('\n\n')\<close>\<close>

definition spacing :: "jsstring \<Rightarrow> jsstring" where
  "spacing s =
     joinLines [0x0A, 0x0A] (filter (\<lambda>line. line \<noteq> []) (map trim (splitLines [] s)))"

definition standardizeResponse :: "jsstring \<Rightarrow> jsstring" where
  "standardizeResponse text =
     (if text = [] then []
      else spacing (links (emphasis (inlineCode (quoteNotes (listMarkers (headings
             (codeBlocks (cleanUp text)))))))))"

text \<open>
  The heading, list and note substitutions taken together (the seven line patterns, which
  follow one another in the source), and the lines they have already marked.
\<close>

definition glyphSteps :: "jsstring \<Rightarrow> jsstring" where
  "glyphSteps s = quoteNotes (listMarkers (headings s))"

definition carriesGlyph :: "jsstring \<Rightarrow> bool" where
  "carriesGlyph line \<longleftrightarrow>
     startsWith line glyphSmall \<or> startsWith line glyphMedium \<or> startsWith line glyphLarge
     \<or> startsWith line glyphBullet \<or> startsWith line glyphPin \<or> startsWith line glyphNote"

text \<open>
  Where a line stands in a text: what precedes it is empty or ends with a line terminator,
  what follows it is empty or starts with one, and the line itself has none.
\<close>

definition lineStart :: "jsstring \<Rightarrow> bool" where
  "lineStart pre \<longleftrightarrow> pre = [] \<or> isLineTerminator (last pre)"

definition lineEnd :: "jsstring \<Rightarrow> bool" where
  "lineEnd post \<longleftrightarrow> post = [] \<or> isLineTerminator (hd post)"

definition oneLine :: "jsstring \<Rightarrow> bool" where
  "oneLine l \<longleftrightarrow> list_all (\<lambda>c. \<not> isLineTerminator c) l"


section \<open>The query history\<close>

text \<open>The interfaces \<open>Results\<close> and \<open>QueryResponse\<close>; a timestamp is \<open>Date.now()\<close>.\<close>

record Results =
  perplexity :: jsstring
  chatgpt :: jsstring
  gemini :: jsstring

record QueryResponse =
  query :: jsstring
  timestamp :: int
  parentId :: "int option"
  responses :: Results

text \<open>
  The slot key \<open>llm\<close> of \<open>updateResponse\<close>: \<open>handleSearch\<close> calls it with the three
  literals \<open>'chatgpt'\<close>, \<open>'perplexity'\<close> and \<open>'gemini'\<close> and nothing else.
\<close>

datatype llm = ChatGPT | Perplexity | Gemini

fun llmId :: "llm \<Rightarrow> jsstring" where
  "llmId ChatGPT = js ''chatgpt''"
| "llmId Perplexity = js ''perplexity''"
| "llmId Gemini = js ''gemini''"

text \<open>\<open>q.responses[llm]\<close> and \<open>{...q.responses, [llm]: v}\<close>.\<close>

fun getSlot :: "llm \<Rightarrow> Results \<Rightarrow> jsstring" where
  "getSlot ChatGPT r = chatgpt r"
| "getSlot Perplexity r = perplexity r"
| "getSlot Gemini r = gemini r"

fun setSlot :: "llm \<Rightarrow> jsstring \<Rightarrow> Results \<Rightarrow> Results" where
  "setSlot ChatGPT v r = r\<lparr>chatgpt := v\<rparr>"
| "setSlot Perplexity v r = r\<lparr>perplexity := v\<rparr>"
| "setSlot Gemini v r = r\<lparr>gemini := v\<rparr>"

text \<open>
  What a \<open>catch\<close> clause receives: an \<open>Error\<close> object with its message, or any other
  value. \<open>errorMessage e d\<close> is \<open>e instanceof Error ? e.message : d\<close>.
\<close>

datatype thrown = ErrorObject jsstring | NotAnError

fun errorMessage :: "thrown \<Rightarrow> jsstring \<Rightarrow> jsstring" where
  "errorMessage (ErrorObject msg) d = msg"
| "errorMessage NotAnError d = d"

text \<open>
  \<open>updateResponse(llm, promise)\<close> inside \<open>handleSearch\<close>, for the query created at
  \<open>ts\<close> (\<open>newQuery.timestamp\<close>). \<open>outcome\<close> is how the promise settled: \<open>Inr result\<close>
  when it resolved, \<open>Inl e\<close> when it rejected. Both branches pass the same kind of
  updater to \<open>setQueryHistory\<close>; the function returns the history that updater produces
  from \<open>prev\<close>.
\<close>

definition slotText :: "llm \<Rightarrow> thrown + jsstring \<Rightarrow> jsstring" where
  "slotText l outcome =
     (case outcome of
        Inr result \<Rightarrow> standardizeResponse result
      | Inl e \<Rightarrow> js ''Error ('' @ llmId l @ js ''): '' @ errorMessage e (js ''Unknown error''))"

definition updateResponse ::
    "int \<Rightarrow> llm \<Rightarrow> thrown + jsstring \<Rightarrow> QueryResponse list \<Rightarrow> QueryResponse list" where
  "updateResponse ts l outcome prev =
     map (\<lambda>q. if timestamp q = ts
              then q\<lparr>responses := setSlot l (slotText l outcome) (responses q)\<rparr>
              else q) prev"

text \<open>\<open>handleDeleteQuery(timestamp)\<close>: the updater it passes to \<open>setQueryHistory\<close>.\<close>

definition handleDeleteQuery :: "int \<Rightarrow> QueryResponse list \<Rightarrow> QueryResponse list" where
  "handleDeleteQuery ts prev = filter (\<lambda>item. timestamp item \<noteq> ts) prev"


section \<open>Submitting a query\<close>

definition createPromptWithContext :: "jsstring \<Rightarrow> QueryResponse option \<Rightarrow> jsstring" where
  "createPromptWithContext prompt parentQuery =
     (case parentQuery of
        None \<Rightarrow> prompt
      | Some p \<Rightarrow>
          js ''Previous question: '' @ query p
          @ js ''\<newline>Previous answers:\<newline>ChatGPT: '' @ chatgpt (responses p)
          @ js ''\<newline>Gemini: '' @ gemini (responses p)
          @ js ''\<newline>Perplexity: '' @ perplexity (responses p)
          @ js ''\<newline>\<newline>Follow-up question: '' @ prompt)"

text \<open>
  \<open>selectedQuery ? queryHistory.find(q => q.timestamp === selectedQuery) : undefined\<close>,
  with \<open>selectedQuery : number | null\<close>; null and 0 are falsy.
\<close>

definition findParent :: "int option \<Rightarrow> QueryResponse list \<Rightarrow> QueryResponse option" where
  "findParent selectedQuery queryHistory =
     (case selectedQuery of
        None \<Rightarrow> None
      | Some t \<Rightarrow> if t = 0 then None else find (\<lambda>q. timestamp q = t) queryHistory)"

definition contextualPrompt ::
    "jsstring option \<Rightarrow> jsstring option \<Rightarrow> jsstring \<Rightarrow> QueryResponse option \<Rightarrow> jsstring" where
  "contextualPrompt userType queryType queryText parentQuery =
     js ''User Type: '' @ orDefault userType (js ''Not specified'')
     @ js ''\<newline>Query Type: '' @ orDefault queryType (js ''Not specified'')
     @ js ''\<newline>\<newline>''
     @ (case parentQuery of
          Some p \<Rightarrow> createPromptWithContext queryText (Some p)
        | None \<Rightarrow> queryText)"

text \<open>The record \<open>newQuery\<close>; \<open>now\<close> is the value of \<open>Date.now()\<close>.\<close>

definition loading :: Results where
  "loading = \<lparr>perplexity = js ''Loading...'', chatgpt = js ''Loading...'',
              gemini = js ''Loading...''\<rparr>"

definition newQuery :: "jsstring \<Rightarrow> int \<Rightarrow> QueryResponse option \<Rightarrow> QueryResponse" where
  "newQuery queryText now parentQuery =
     \<lparr>query = trim queryText, timestamp = now,
      parentId = map_option timestamp parentQuery, responses = loading\<rparr>"

text \<open>
  The part of \<open>handleSearch\<close> that runs before the first provider call settles. The
  arguments are the state cells it reads (\<open>query\<close>, \<open>selectedQuery\<close>,
  \<open>queryHistory\<close>, \<open>userType\<close>, \<open>queryType\<close>) and the clock. It returns \<open>None\<close>
  when the handler returns at once; otherwise the history after the two updaters it has
  passed to \<open>setQueryHistory\<close> (the one that prepends \<open>newQuery\<close>, then the one that
  sets the slots of the records with the new timestamp to the loading text), and the
  prompt it hands to \<open>callOpenAI\<close>, \<open>callPerplexity\<close> and \<open>callGemini\<close>.
\<close>

record searchStarted =
  historyAfterPrepend :: "QueryResponse list"
  historyAfterSubmit :: "QueryResponse list"
  promptSent :: jsstring

definition handleSearch ::
    "jsstring \<Rightarrow> int option \<Rightarrow> QueryResponse list \<Rightarrow> jsstring option \<Rightarrow> jsstring option
     \<Rightarrow> int \<Rightarrow> searchStarted option" where
  "handleSearch queryText selectedQuery queryHistory userType queryType now =
     (if trim queryText = [] then None
      else
        (let parentQuery = findParent selectedQuery queryHistory;
             prompt = contextualPrompt userType queryType queryText parentQuery;
             new = newQuery queryText now parentQuery;
             prepended = new # queryHistory
         in Some \<lparr>historyAfterPrepend = prepended,
                 historyAfterSubmit =
                   map (\<lambda>q. if timestamp q = timestamp new
                            then q\<lparr>responses := loading\<rparr> else q) prepended,
                 promptSent = prompt\<rparr>))"

text \<open>The instruction header each adapter puts in front of the prompt it is given.\<close>

definition formattedPrompt :: "jsstring option \<Rightarrow> jsstring option \<Rightarrow> jsstring \<Rightarrow> jsstring" where
  "formattedPrompt userType queryType prompt =
     js ''You are an expert at providing tailored responses based on user type and query type.''
     @ js ''\<newline>User Type: '' @ orDefault userType (js ''general user'')
     @ js ''\<newline>Query Type: '' @ orDefault queryType (js ''general query'')
     @ js ''\<newline>\<newline>Please format your response using the following structure:''
     @ js ''\<newline># Main points as top-level headings''
     @ js ''\<newline>## Important details as subheadings''
     @ js ''\<newline>### Additional information as smaller headings''
     @ js ''\<newline>- Use bullet points for lists''
     @ js ''\<newline>1. Use numbered lists for steps''
     @ js ''\<newline>> Use blockquotes for important notes''
     @ js ''\<newline>\<newline>Your response:\<newline>'' @ prompt"


section \<open>The provider adapters\<close>

text \<open>
  What \<open>response.json()\<close> yields: a JSON value. \<open>JUndefined\<close> is what reading a
  missing property gives. No adapter looks into a number, so a number carries an integer.
\<close>

datatype jsvalue =
    JUndefined
  | JNull
  | JBool bool
  | JNumber int
  | JString jsstring
  | JArray "jsvalue list"
  | JObject "(jsstring \<times> jsvalue) list"

text \<open>The property names the adapters read; \<open>Index0\<close> is \<open>[0]\<close>.\<close>

datatype property = Choices | Candidates | Index0 | Message | Content | Parts | Text

fun propName :: "property \<Rightarrow> jsstring" where
  "propName Choices = js ''choices''"
| "propName Candidates = js ''candidates''"
| "propName Index0 = js ''0''"
| "propName Message = js ''message''"
| "propName Content = js ''content''"
| "propName Parts = js ''parts''"
| "propName Text = js ''text''"

text \<open>
  \<open>v.p\<close> and \<open>v[0]\<close>: reading a property of \<open>undefined\<close> or \<open>null\<close> throws a
  TypeError, whose message the engine chooses (\<open>typeErrorMessage\<close>); an object gives
  the value stored under the name, or \<open>undefined\<close>; an array and a string have the
  element \<open>0\<close> when they are not empty and none of the other names; a boolean and a
  number have none of them.
\<close>

fun getProp :: "(jsvalue \<Rightarrow> property \<Rightarrow> jsstring) \<Rightarrow> jsvalue \<Rightarrow> property \<Rightarrow> thrown + jsvalue" where
  "getProp typeErrorMessage JUndefined p = Inl (ErrorObject (typeErrorMessage JUndefined p))"
| "getProp typeErrorMessage JNull p = Inl (ErrorObject (typeErrorMessage JNull p))"
| "getProp typeErrorMessage (JObject kvs) p =
     Inr (case map_of kvs (propName p) of None \<Rightarrow> JUndefined | Some v \<Rightarrow> v)"
| "getProp typeErrorMessage (JArray xs) p =
     Inr (case xs of [] \<Rightarrow> JUndefined | x # _ \<Rightarrow> if p = Index0 then x else JUndefined)"
| "getProp typeErrorMessage (JString s) p =
     Inr (case s of [] \<Rightarrow> JUndefined | c # _ \<Rightarrow> if p = Index0 then JString [c] else JUndefined)"
| "getProp typeErrorMessage (JBool b) p = Inr JUndefined"
| "getProp typeErrorMessage (JNumber n) p = Inr JUndefined"

fun getPath ::
    "(jsvalue \<Rightarrow> property \<Rightarrow> jsstring) \<Rightarrow> jsvalue \<Rightarrow> property list \<Rightarrow> thrown + jsvalue" where
  "getPath typeErrorMessage v [] = Inr v"
| "getPath typeErrorMessage v (p # ps) =
     (case getProp typeErrorMessage v p of
        Inl e \<Rightarrow> Inl e
      | Inr w \<Rightarrow> getPath typeErrorMessage w ps)"

text \<open>
  The \<open>Response\<close> of \<open>fetch\<close>: its status (\<open>response.ok\<close> is true for 200 to 299),
  and how \<open>response.text()\<close> and \<open>response.json()\<close> settle. \<open>fetch\<close> itself rejects
  or resolves with a response.
\<close>

record response =
  status :: nat
  bodyText :: "thrown + jsstring"
  bodyJson :: "thrown + jsvalue"

definition ok :: "response \<Rightarrow> bool" where
  "ok r \<longleftrightarrow> 200 \<le> status r \<and> status r \<le> 299"

datatype fetched = Rejected thrown | Resolved response

text \<open>
  \<open>timeoutPromise(promise, timeout)\<close>: the race between the request and the timer.
  \<open>timerFirst\<close> says that the timer fired before the request settled.
\<close>

definition timeoutPromise :: "bool \<Rightarrow> fetched \<Rightarrow> fetched" where
  "timeoutPromise timerFirst promise =
     (if timerFirst then Rejected (ErrorObject (js ''Request timed out'')) else promise)"

text \<open>
  \<open>if (!response.ok) { const errorBody = await response.text(); throw new Error(...) }\<close>
  of \<open>callOpenAI\<close> and \<open>callPerplexity\<close>, and the shorter form of \<open>callGemini\<close>.
\<close>

definition httpErrorWithBody :: "response \<Rightarrow> thrown" where
  "httpErrorWithBody r =
     (case bodyText r of
        Inl e \<Rightarrow> e
      | Inr errorBody \<Rightarrow>
          ErrorObject (js ''HTTP error! status: '' @ showNat (status r)
                       @ js '', message: '' @ errorBody))"

definition httpError :: "response \<Rightarrow> thrown" where
  "httpError r = ErrorObject (js ''HTTP error! status: '' @ showNat (status r))"

text \<open>
  The \<open>try\<close> blocks of the three adapters: \<open>Inl e\<close> when the block throws \<open>e\<close>,
  \<open>Inr v\<close> when it returns \<open>v\<close>. \<open>apiKey\<close> is the key of \<open>API_CONFIG\<close> (absent when
  the environment variable is not set); \<open>callOpenAI\<close> does not test its key, it sends the
  request whatever the key is.
\<close>

definition tryOpenAI ::
    "(jsvalue \<Rightarrow> property \<Rightarrow> jsstring) \<Rightarrow> bool \<Rightarrow> fetched \<Rightarrow> thrown + jsvalue" where
  "tryOpenAI typeErrorMessage timerFirst fetchResult =
     (case timeoutPromise timerFirst fetchResult of
        Rejected e \<Rightarrow> Inl e
      | Resolved r \<Rightarrow>
          if \<not> ok r then Inl (httpErrorWithBody r)
          else (case bodyJson r of
                  Inl e \<Rightarrow> Inl e
                | Inr data \<Rightarrow> getPath typeErrorMessage data [Choices, Index0, Message, Content]))"

definition tryGemini ::
    "(jsvalue \<Rightarrow> property \<Rightarrow> jsstring) \<Rightarrow> jsstring option \<Rightarrow> fetched \<Rightarrow> thrown + jsvalue" where
  "tryGemini typeErrorMessage apiKey fetchResult =
     (if isFalsy apiKey then Inl (ErrorObject (js ''Gemini API key not found''))
      else (case fetchResult of
              Rejected e \<Rightarrow> Inl e
            | Resolved r \<Rightarrow>
                if \<not> ok r then Inl (httpError r)
                else (case bodyJson r of
                        Inl e \<Rightarrow> Inl e
                      | Inr data \<Rightarrow>
                          getPath typeErrorMessage data
                            [Candidates, Index0, Content, Parts, Index0, Text])))"

definition tryPerplexity ::
    "(jsvalue \<Rightarrow> property \<Rightarrow> jsstring) \<Rightarrow> jsstring option \<Rightarrow> fetched \<Rightarrow> thrown + jsvalue" where
  "tryPerplexity typeErrorMessage apiKey fetchResult =
     (if isFalsy apiKey then Inl (ErrorObject (js ''Perplexity API key not found''))
      else (case fetchResult of
              Rejected e \<Rightarrow> Inl e
            | Resolved r \<Rightarrow>
                if \<not> ok r then Inl (httpErrorWithBody r)
                else (case bodyJson r of
                        Inl e \<Rightarrow> Inl e
                      | Inr data \<Rightarrow>
                          getPath typeErrorMessage data [Choices, Index0, Message, Content])))"

text \<open>
  \<open>catch (error) { return `Error (<provider>): ${error instanceof Error ? error.message
  : 'Unknown error'}` }\<close>. The result of an adapter is again \<open>Inr v\<close> when it returns
  \<open>v\<close> and \<open>Inl e\<close> when \<open>e\<close> leaves it.
\<close>

definition catchAsText :: "jsstring \<Rightarrow> thrown + jsvalue \<Rightarrow> thrown + jsvalue" where
  "catchAsText provider attempt =
     (case attempt of
        Inr v \<Rightarrow> Inr v
      | Inl e \<Rightarrow>
          Inr (JString (js ''Error ('' @ provider @ js ''): ''
                        @ errorMessage e (js ''Unknown error''))))"

definition callOpenAI ::
    "(jsvalue \<Rightarrow> property \<Rightarrow> jsstring) \<Rightarrow> bool \<Rightarrow> fetched \<Rightarrow> thrown + jsvalue" where
  "callOpenAI typeErrorMessage timerFirst fetchResult =
     catchAsText (js ''OpenAI'') (tryOpenAI typeErrorMessage timerFirst fetchResult)"

definition callGemini ::
    "(jsvalue \<Rightarrow> property \<Rightarrow> jsstring) \<Rightarrow> jsstring option \<Rightarrow> fetched \<Rightarrow> thrown + jsvalue" where
  "callGemini typeErrorMessage apiKey fetchResult =
     catchAsText (js ''Gemini'') (tryGemini typeErrorMessage apiKey fetchResult)"

definition callPerplexity ::
    "(jsvalue \<Rightarrow> property \<Rightarrow> jsstring) \<Rightarrow> jsstring option \<Rightarrow> fetched \<Rightarrow> thrown + jsvalue" where
  "callPerplexity typeErrorMessage apiKey fetchResult =
     catchAsText (js ''Perplexity'') (tryPerplexity typeErrorMessage apiKey fetchResult)"

text \<open>A result of the form \<open>Error (<provider>): <message>\<close>.\<close>

definition errorText :: "jsstring \<Rightarrow> jsstring \<Rightarrow> thrown + jsvalue" where
  "errorText provider message = Inr (JString (js ''Error ('' @ provider @ js ''): '' @ message))"


section \<open>Uploading a file\<close>

text \<open>
  \<open>readFileContent(file)\<close>. Which entry of \<open>SUPPORTED_FILE_TYPES\<close> the file selects and
  what its \<open>process\<close> function extracts depend on the browser (the file's bytes, the DOM
  parser, the OCR and PDF libraries), so they are an argument: \<open>None\<close> when no entry
  fits the file, otherwise how \<open>process(file)\<close> settles. Every error leaves the function
  wrapped in a new \<open>Error\<close>.
\<close>

definition readFileContent :: "(thrown + jsstring) option \<Rightarrow> thrown + jsstring" where
  "readFileContent processed =
     (case (case processed of
              None \<Rightarrow> Inl (ErrorObject (js ''Unsupported file type''))
            | Some outcome \<Rightarrow> outcome) of
        Inr content \<Rightarrow> Inr content
      | Inl e \<Rightarrow>
          Inl (ErrorObject (js ''Error processing file: ''
                            @ errorMessage e (js ''Unknown error''))))"

text \<open>
  The calls of the state setters that \<open>handleFileUpload\<close> makes, in order. \<open>file\<close> is
  \<open>event.target.files?.[0]\<close>: the name of the file and what \<open>readFileContent\<close> is
  given, or \<open>None\<close> when no file was chosen.
\<close>

datatype setter =
    SetFileName jsstring
  | SetError "jsstring option"
  | SetFileContent jsstring
  | SetQuery jsstring

definition handleFileUpload :: "(jsstring \<times> (thrown + jsstring) option) option \<Rightarrow> setter list" where
  "handleFileUpload file =
     (case file of
        None \<Rightarrow> []
      | Some (name, processed) \<Rightarrow>
          [SetFileName name, SetError None]
          @ (case (case readFileContent processed of
                     Inl e \<Rightarrow> Inl e
                   | Inr content \<Rightarrow>
                       if length content > 50000
                       then Inl (ErrorObject
                              (js ''File content is too large. Please upload a smaller file.''))
                       else Inr content) of
               Inr content \<Rightarrow> [SetFileContent content, SetQuery content]
             | Inl e \<Rightarrow>
                 [SetFileName [], SetFileContent [],
                  SetError (Some (errorMessage e (js ''Error reading file. Please try again.'')))]))"

text \<open>The state cells the setters write, and a run of setter calls on them.\<close>

record cells =
  fileName :: jsstring
  fileContent :: jsstring
  error :: "jsstring option"
  queryCell :: jsstring

fun applySetter :: "cells \<Rightarrow> setter \<Rightarrow> cells" where
  "applySetter s (SetFileName v) = s\<lparr>fileName := v\<rparr>"
| "applySetter s (SetError v) = s\<lparr>error := v\<rparr>"
| "applySetter s (SetFileContent v) = s\<lparr>fileContent := v\<rparr>"
| "applySetter s (SetQuery v) = s\<lparr>queryCell := v\<rparr>"

definition isSetQuery :: "setter \<Rightarrow> bool" where
  "isSetQuery c = (case c of SetQuery v \<Rightarrow> True | _ \<Rightarrow> False)"


section \<open>Text size (zoom controls)\<close>

text \<open>
  The component keeps \<open>textSize\<close> in a state cell initialised with
  \<open>useState(16)\<close>. The two handlers pass an updater to \<open>setTextSize\<close>:
  \<open>prevSize => Math.min(prevSize + 2, 32)\<close> and
  \<open>prevSize => Math.max(prevSize - 2, 12)\<close>. All values that occur are
  integers, so the JavaScript number is modelled as \<open>int\<close>.
\<close>

definition initialTextSize :: int where
  "initialTextSize = 16"

definition handleZoomIn :: "int \<Rightarrow> int" where
  "handleZoomIn prevSize = min (prevSize + 2) 32"

definition handleZoomOut :: "int \<Rightarrow> int" where
  "handleZoomOut prevSize = max (prevSize - 2) 12"

datatype zoom = ZoomIn | ZoomOut

fun zoomStep :: "int \<Rightarrow> zoom \<Rightarrow> int" where
  "zoomStep s ZoomIn = handleZoomIn s"
| "zoomStep s ZoomOut = handleZoomOut s"

definition zoomRun :: "zoom list \<Rightarrow> int" where
  "zoomRun clicks = foldl zoomStep initialTextSize clicks"


section \<open>Example values and auxiliary definitions\<close>

text \<open>A history of two records, the newer one first and still loading.\<close>

definition exampleHistory :: "QueryResponse list" where
  "exampleHistory =
     [\<lparr>query = js ''second'', timestamp = 2, parentId = Some 1, responses = loading\<rparr>,
      \<lparr>query = js ''first'', timestamp = 1, parentId = None,
       responses = \<lparr>perplexity = js ''p'', chatgpt = js ''c'', gemini = js ''g''\<rparr>\<rparr>]"

text \<open>A parent record with the question \<open>Q\<close> and the answers \<open>A\<close>, \<open>B\<close>, \<open>C\<close>.\<close>

definition exampleParent :: QueryResponse where
  "exampleParent =
     \<lparr>query = js ''Q'', timestamp = 7, parentId = None,
      responses = \<lparr>perplexity = js ''C'', chatgpt = js ''A'', gemini = js ''B''\<rparr>\<rparr>"

text \<open>
  An engine whose TypeError always carries the same message, and the response body
  \<open>{"choices": [{"message": {"role": "assistant"}}]}\<close>.
\<close>

definition exampleTypeError :: "jsvalue \<Rightarrow> property \<Rightarrow> jsstring" where
  "exampleTypeError v p = js ''Cannot read properties of undefined''"

definition exampleBody :: jsvalue where
  "exampleBody =
     JObject [(js ''choices'',
       JArray [JObject [(js ''message'', JObject [(js ''role'', JString (js ''assistant''))])]])]"

text \<open>
  What the three heading patterns, and all seven line patterns, do to one line when they
  are applied one after the other; a line is \<open>marked\<close> when it starts with the first
  code unit of a glyph.
\<close>

definition headingLine :: "jsstring \<Rightarrow> jsstring" where
  "headingLine l =
     prefixRule [0x23] glyphLarge
       (prefixRule [0x23, 0x23] glyphMedium (prefixRule [0x23, 0x23, 0x23] glyphSmall l))"

definition glyphLine :: "jsstring \<Rightarrow> jsstring" where
  "glyphLine l =
     prefixRule [0x3E] glyphNote
       (numberedRule
         (prefixRule [0x2D] glyphBullet (prefixRule [0x2A] glyphBullet (headingLine l))))"

definition marked :: "jsstring \<Rightarrow> bool" where
  "marked l \<longleftrightarrow> (case l of [] \<Rightarrow> False | c # _ \<Rightarrow> c = 0xD83D \<or> c = 0x2022)"

text \<open>
  A text without the code units that start an inline pattern: backtick, star, underscore
  and opening square bracket.
\<close>

definition noInlineMarkup :: "jsstring \<Rightarrow> bool" where
  "noInlineMarkup s \<longleftrightarrow>
     list_all (\<lambda>c. c \<noteq> 0x60 \<and> c \<noteq> 0x2A \<and> c \<noteq> 0x5F \<and> c \<noteq> 0x5B) s"


section \<open>Properties of the zoom controls\<close>

lemma zoomStep_bounds:
  "12 \<le> s \<and> s \<le> 32 \<Longrightarrow> 12 \<le> zoomStep s z \<and> zoomStep s z \<le> 32"
  by (cases z) (simp_all add: handleZoomIn_def handleZoomOut_def)

lemma foldl_zoomStep_bounds:
  "12 \<le> s \<and> s \<le> 32 \<Longrightarrow> 12 \<le> foldl zoomStep s zs \<and> foldl zoomStep s zs \<le> 32"
proof (induction zs arbitrary: s)
  case Nil
  then show ?case by simp
next
  case (Cons z zs)
  from Cons.prems have "12 \<le> zoomStep s z \<and> zoomStep s z \<le> 32"
    by (rule zoomStep_bounds)
  then show ?case using Cons.IH by simp
qed

text \<open>
  C10. Starting from the default text size 16, after any sequence of zoom-in and
  zoom-out clicks the text size lies between 12 and 32 inclusive; zooming in adds 2
  and stops at 32, zooming out subtracts 2 and stops at 12.
\<close>

theorem textSize_invariant:
  "12 \<le> zoomRun clicks \<and> zoomRun clicks \<le> 32
   \<and> handleZoomIn s = (if s + 2 \<le> 32 then s + 2 else 32)
   \<and> handleZoomOut s = (if 12 \<le> s - 2 then s - 2 else 12)"
proof -
  have "12 \<le> zoomRun clicks \<and> zoomRun clicks \<le> 32"
    unfolding zoomRun_def by (rule foldl_zoomStep_bounds) (simp add: initialTextSize_def)
  then show ?thesis
    by (simp add: handleZoomIn_def handleZoomOut_def)
qed


section \<open>Properties of the history updates\<close>

lemma updateResponse_nth:
  "i < length prev \<Longrightarrow>
   updateResponse ts l outcome prev ! i =
     (if timestamp (prev ! i) = ts
      then (prev ! i)\<lparr>responses := setSlot l (slotText l outcome) (responses (prev ! i))\<rparr>
      else prev ! i)"
  by (simp add: updateResponse_def)

lemma getSlot_setSlot_same: "getSlot l (setSlot l v r) = v"
  by (cases l) simp_all

lemma getSlot_setSlot_other: "l' \<noteq> l \<Longrightarrow> getSlot l' (setSlot l v r) = getSlot l' r"
  by (cases l; cases l') simp_all

text \<open>
  C1. When one provider's call for the query created at \<open>ts\<close> settles, the update
  keeps the length and the order of the history; in every record it keeps the query text,
  the timestamp, the parent id and the two other response slots; a record with another
  timestamp is unchanged; a record with the timestamp \<open>ts\<close> gets the new text in that
  provider's slot.
\<close>

theorem updateResponse_frame:
  "length (updateResponse ts l outcome prev) = length prev
   \<and> map timestamp (updateResponse ts l outcome prev) = map timestamp prev
   \<and> (\<forall>i < length prev.
         query (updateResponse ts l outcome prev ! i) = query (prev ! i)
       \<and> timestamp (updateResponse ts l outcome prev ! i) = timestamp (prev ! i)
       \<and> parentId (updateResponse ts l outcome prev ! i) = parentId (prev ! i)
       \<and> (\<forall>other. other \<noteq> l \<longrightarrow>
             getSlot other (responses (updateResponse ts l outcome prev ! i))
               = getSlot other (responses (prev ! i)))
       \<and> (timestamp (prev ! i) \<noteq> ts \<longrightarrow> updateResponse ts l outcome prev ! i = prev ! i)
       \<and> (timestamp (prev ! i) = ts \<longrightarrow>
             getSlot l (responses (updateResponse ts l outcome prev ! i)) = slotText l outcome))"
proof -
  have len: "length (updateResponse ts l outcome prev) = length prev"
    by (simp add: updateResponse_def)
  have ts: "map timestamp (updateResponse ts l outcome prev) = map timestamp prev"
    by (simp add: updateResponse_def)
  have each: "\<forall>i < length prev.
         query (updateResponse ts l outcome prev ! i) = query (prev ! i)
       \<and> timestamp (updateResponse ts l outcome prev ! i) = timestamp (prev ! i)
       \<and> parentId (updateResponse ts l outcome prev ! i) = parentId (prev ! i)
       \<and> (\<forall>other. other \<noteq> l \<longrightarrow>
             getSlot other (responses (updateResponse ts l outcome prev ! i))
               = getSlot other (responses (prev ! i)))
       \<and> (timestamp (prev ! i) \<noteq> ts \<longrightarrow> updateResponse ts l outcome prev ! i = prev ! i)
       \<and> (timestamp (prev ! i) = ts \<longrightarrow>
             getSlot l (responses (updateResponse ts l outcome prev ! i)) = slotText l outcome)"
    by (simp add: updateResponse_nth getSlot_setSlot_same getSlot_setSlot_other)
  from len ts each show ?thesis by blast
qed

theorem updateResponse_frame_witness:
  "updateResponse 2 Gemini (Inl NotAnError) exampleHistory ! 1 = exampleHistory ! 1
   \<and> query (updateResponse 2 Gemini (Inl NotAnError) exampleHistory ! 0) = js ''second''
   \<and> timestamp (updateResponse 2 Gemini (Inl NotAnError) exampleHistory ! 0) = 2
   \<and> parentId (updateResponse 2 Gemini (Inl NotAnError) exampleHistory ! 0) = Some 1
   \<and> chatgpt (responses (updateResponse 2 Gemini (Inl NotAnError) exampleHistory ! 0))
       = js ''Loading...''
   \<and> perplexity (responses (updateResponse 2 Gemini (Inl NotAnError) exampleHistory ! 0))
       = js ''Loading...''
   \<and> gemini (responses (updateResponse 2 Gemini (Inl NotAnError) exampleHistory ! 0))
       = js ''Error (gemini): Unknown error''"
  using updateResponse_frame [of 2 Gemini "Inl NotAnError" exampleHistory]
  by (simp add: exampleHistory_def loading_def slotText_def js_def updateResponse_def)

lemma updateResponse_absent:
  "\<forall>q \<in> set h. timestamp q \<noteq> ts \<Longrightarrow> updateResponse ts l outcome h = h"
  unfolding updateResponse_def by (induction h) simp_all

text \<open>
  C7. Deleting the record with timestamp \<open>ts\<close> filters it out of the history at once
  and keeps the other records in their order; an update that arrives later for \<open>ts\<close>
  leaves the history as it is, so the record is not inserted again. In general the update
  leaves a history with no record of that timestamp unchanged.
\<close>

theorem deleted_query_stays_deleted:
  "(\<forall>q \<in> set (handleDeleteQuery ts prev). timestamp q \<noteq> ts)
   \<and> handleDeleteQuery ts prev = filter (\<lambda>q. timestamp q \<noteq> ts) prev
   \<and> updateResponse ts l outcome (handleDeleteQuery ts prev) = handleDeleteQuery ts prev
   \<and> ((\<forall>q \<in> set h. timestamp q \<noteq> ts) \<longrightarrow> updateResponse ts l outcome h = h)"
proof -
  have gone: "\<forall>q \<in> set (handleDeleteQuery ts prev). timestamp q \<noteq> ts"
    by (simp add: handleDeleteQuery_def)
  from gone have "updateResponse ts l outcome (handleDeleteQuery ts prev) = handleDeleteQuery ts prev"
    by (rule updateResponse_absent)
  with gone show ?thesis
    by (simp add: handleDeleteQuery_def updateResponse_absent)
qed

theorem deleted_query_stays_deleted_witness:
  "handleDeleteQuery 2 exampleHistory = [exampleHistory ! 1]
   \<and> updateResponse 2 ChatGPT (Inl (ErrorObject (js ''late''))) (handleDeleteQuery 2 exampleHistory)
       = [exampleHistory ! 1]
   \<and> list_all (\<lambda>q. timestamp q \<noteq> 2) [exampleHistory ! 1]
   \<and> updateResponse 2 ChatGPT (Inl (ErrorObject (js ''late''))) [exampleHistory ! 1]
       = [exampleHistory ! 1]"
proof -
  have absent: "\<forall>q \<in> set [exampleHistory ! 1]. timestamp q \<noteq> 2"
    by (simp add: exampleHistory_def)
  have deleted: "handleDeleteQuery 2 exampleHistory = [exampleHistory ! 1]"
    by (simp add: exampleHistory_def handleDeleteQuery_def)
  from deleted_query_stays_deleted
      [of 2 exampleHistory ChatGPT "Inl (ErrorObject (js ''late''))" "[exampleHistory ! 1]"]
    absent
  have "updateResponse 2 ChatGPT (Inl (ErrorObject (js ''late''))) (handleDeleteQuery 2 exampleHistory)
         = handleDeleteQuery 2 exampleHistory"
    and "updateResponse 2 ChatGPT (Inl (ErrorObject (js ''late''))) [exampleHistory ! 1]
         = [exampleHistory ! 1]"
    by blast+
  with deleted absent show ?thesis by simp
qed


section \<open>Properties of the submission\<close>

lemma handleSearch_Some:
  "trim queryText \<noteq> [] \<Longrightarrow>
   handleSearch queryText sel h ut qt now =
     Some \<lparr>historyAfterPrepend = newQuery queryText now (findParent sel h) # h,
           historyAfterSubmit =
             newQuery queryText now (findParent sel h)
             # map (\<lambda>q. if timestamp q = now then q\<lparr>responses := loading\<rparr> else q) h,
           promptSent = contextualPrompt ut qt queryText (findParent sel h)\<rparr>"
  by (simp add: handleSearch_def Let_def newQuery_def)

lemma reload_absent:
  "\<forall>q \<in> set h. timestamp q \<noteq> now \<Longrightarrow>
   map (\<lambda>q. if timestamp q = now then q\<lparr>responses := loading\<rparr> else q) h = h"
  by (induction h) simp_all

text \<open>
  A query that consists of white space only is not empty, yet \<open>handleSearch\<close> returns
  at once (\<open>if (!query.trim()) return\<close>): no record is created and the history stays
  as it was.
\<close>

theorem whitespace_query_ignored:
  "js '' '' \<noteq> [] \<and> handleSearch (js '' '') None exampleHistory None None 3 = None"
  by (simp add: handleSearch_def js_def trim_def isWhiteSpace_def)

lemma trim_Nil_iff: "trim s = [] \<longleftrightarrow> list_all isWhiteSpace s"
proof -
  have "trim s = [] \<longleftrightarrow> (\<forall>c \<in> set (dropWhile isWhiteSpace s). isWhiteSpace c)"
    by (simp add: trim_def dropWhile_eq_Nil_conv)
  also have "\<dots> \<longleftrightarrow> dropWhile isWhiteSpace s = []"
  proof
    assume all: "\<forall>c \<in> set (dropWhile isWhiteSpace s). isWhiteSpace c"
    show "dropWhile isWhiteSpace s = []"
    proof (rule ccontr)
      assume "dropWhile isWhiteSpace s \<noteq> []"
      then have "\<not> isWhiteSpace (hd (dropWhile isWhiteSpace s))"
        and "hd (dropWhile isWhiteSpace s) \<in> set (dropWhile isWhiteSpace s)"
        by (simp_all add: hd_dropWhile)
      with all show False by blast
    qed
  next
    assume e: "dropWhile isWhiteSpace s = []"
    show "\<forall>c \<in> set (dropWhile isWhiteSpace s). isWhiteSpace c"
      unfolding e by simp
  qed
  also have "\<dots> \<longleftrightarrow> list_all isWhiteSpace s"
    by (simp add: dropWhile_eq_Nil_conv list_all_iff)
  finally show ?thesis .
qed

lemma handleSearch_None: "trim queryText = [] \<Longrightarrow> handleSearch queryText sel h ut qt now = None"
  by (simp add: handleSearch_def)

text \<open>
  C9 (amended). On submission of a query that is not empty after trimming, the handler
  creates, before any provider call settles, a record whose three response slots are
  \<open>'Loading...'\<close>, whose text is the trimmed query and whose timestamp is the clock
  value, and puts it in front of the history: the earlier records follow in their order.
  The second updater keeps the head, the length and the order, and leaves the history as
  it is when no earlier record carries the new timestamp. A query is empty after trimming
  exactly when it consists of white space only, and every such query is ignored: the
  handler returns at once and creates no record.
\<close>

theorem handleSearch_prepends:
  "(trim queryText \<noteq> [] \<longrightarrow>
     (\<exists>s. handleSearch queryText sel h ut qt now = Some s
       \<and> historyAfterPrepend s = hd (historyAfterPrepend s) # h
       \<and> query (hd (historyAfterPrepend s)) = trim queryText
       \<and> timestamp (hd (historyAfterPrepend s)) = now
       \<and> perplexity (responses (hd (historyAfterPrepend s))) = js ''Loading...''
       \<and> chatgpt (responses (hd (historyAfterPrepend s))) = js ''Loading...''
       \<and> gemini (responses (hd (historyAfterPrepend s))) = js ''Loading...''
       \<and> hd (historyAfterSubmit s) = hd (historyAfterPrepend s)
       \<and> length (historyAfterSubmit s) = Suc (length h)
       \<and> map query (tl (historyAfterSubmit s)) = map query h
       \<and> map timestamp (tl (historyAfterSubmit s)) = map timestamp h
       \<and> ((\<forall>q \<in> set h. timestamp q \<noteq> now) \<longrightarrow>
             historyAfterSubmit s = historyAfterPrepend s)))
   \<and> (trim queryText = [] \<longleftrightarrow> list_all isWhiteSpace queryText)
   \<and> (list_all isWhiteSpace queryText \<longrightarrow> handleSearch queryText sel h ut qt now = None)"
proof -
  let ?s = "\<lparr>historyAfterPrepend = newQuery queryText now (findParent sel h) # h,
           historyAfterSubmit =
             newQuery queryText now (findParent sel h)
             # map (\<lambda>q. if timestamp q = now then q\<lparr>responses := loading\<rparr> else q) h,
           promptSent = contextualPrompt ut qt queryText (findParent sel h)\<rparr>"
  have new: "query (newQuery queryText now (findParent sel h)) = trim queryText
     \<and> timestamp (newQuery queryText now (findParent sel h)) = now
     \<and> perplexity (responses (newQuery queryText now (findParent sel h))) = js ''Loading...''
     \<and> chatgpt (responses (newQuery queryText now (findParent sel h))) = js ''Loading...''
     \<and> gemini (responses (newQuery queryText now (findParent sel h))) = js ''Loading...''"
    by (simp add: newQuery_def loading_def)
  have order: "map query (map (\<lambda>q. if timestamp q = now then q\<lparr>responses := loading\<rparr> else q) h)
        = map query h
     \<and> map timestamp (map (\<lambda>q. if timestamp q = now then q\<lparr>responses := loading\<rparr> else q) h)
        = map timestamp h"
    by (induction h) simp_all
  have fresh: "(\<forall>q \<in> set h. timestamp q \<noteq> now) \<longrightarrow>
      map (\<lambda>q. if timestamp q = now then q\<lparr>responses := loading\<rparr> else q) h = h"
    using reload_absent by blast
  have created: "trim queryText \<noteq> [] \<longrightarrow>
     (\<exists>s. handleSearch queryText sel h ut qt now = Some s
       \<and> historyAfterPrepend s = hd (historyAfterPrepend s) # h
       \<and> query (hd (historyAfterPrepend s)) = trim queryText
       \<and> timestamp (hd (historyAfterPrepend s)) = now
       \<and> perplexity (responses (hd (historyAfterPrepend s))) = js ''Loading...''
       \<and> chatgpt (responses (hd (historyAfterPrepend s))) = js ''Loading...''
       \<and> gemini (responses (hd (historyAfterPrepend s))) = js ''Loading...''
       \<and> hd (historyAfterSubmit s) = hd (historyAfterPrepend s)
       \<and> length (historyAfterSubmit s) = Suc (length h)
       \<and> map query (tl (historyAfterSubmit s)) = map query h
       \<and> map timestamp (tl (historyAfterSubmit s)) = map timestamp h
       \<and> ((\<forall>q \<in> set h. timestamp q \<noteq> now) \<longrightarrow>
             historyAfterSubmit s = historyAfterPrepend s))"
  proof
    assume "trim queryText \<noteq> []"
    then have run: "handleSearch queryText sel h ut qt now = Some ?s"
      by (rule handleSearch_Some)
    show "\<exists>s. handleSearch queryText sel h ut qt now = Some s
       \<and> historyAfterPrepend s = hd (historyAfterPrepend s) # h
       \<and> query (hd (historyAfterPrepend s)) = trim queryText
       \<and> timestamp (hd (historyAfterPrepend s)) = now
       \<and> perplexity (responses (hd (historyAfterPrepend s))) = js ''Loading...''
       \<and> chatgpt (responses (hd (historyAfterPrepend s))) = js ''Loading...''
       \<and> gemini (responses (hd (historyAfterPrepend s))) = js ''Loading...''
       \<and> hd (historyAfterSubmit s) = hd (historyAfterPrepend s)
       \<and> length (historyAfterSubmit s) = Suc (length h)
       \<and> map query (tl (historyAfterSubmit s)) = map query h
       \<and> map timestamp (tl (historyAfterSubmit s)) = map timestamp h
       \<and> ((\<forall>q \<in> set h. timestamp q \<noteq> now) \<longrightarrow>
             historyAfterSubmit s = historyAfterPrepend s)"
      apply (rule exI [of _ ?s])
      using run new order fresh by simp
  qed
  have blank: "trim queryText = [] \<longleftrightarrow> list_all isWhiteSpace queryText"
    by (rule trim_Nil_iff)
  have ignored: "list_all isWhiteSpace queryText \<longrightarrow>
      handleSearch queryText sel h ut qt now = None"
    using blank handleSearch_None by blast
  from created blank ignored show ?thesis by blast
qed

theorem handleSearch_prepends_witness:
  "trim (js ''Hello'') \<noteq> []
   \<and> (\<exists>s. handleSearch (js ''Hello'') None exampleHistory None None 3 = Some s
        \<and> historyAfterPrepend s = hd (historyAfterPrepend s) # exampleHistory
        \<and> historyAfterSubmit s = historyAfterPrepend s
        \<and> responses (hd (historyAfterPrepend s)) = loading)
   \<and> list_all isWhiteSpace (js '' \<newline>  '')
   \<and> trim (js '' \<newline>  '') = []
   \<and> handleSearch (js '' \<newline>  '') (Some 1) exampleHistory None None 3 = None"
proof -
  have t: "trim (js ''Hello'') \<noteq> []"
    by (simp add: js_def trim_def isWhiteSpace_def isLineTerminator_def)
  have f: "\<forall>q \<in> set exampleHistory. timestamp q \<noteq> 3"
    by (simp add: exampleHistory_def)
  have w: "list_all isWhiteSpace (js '' \<newline>  '')"
    by (simp add: js_def isWhiteSpace_def isLineTerminator_def)
  from handleSearch_prepends [of "js ''Hello''" None exampleHistory None None 3] t f
  obtain s where s: "handleSearch (js ''Hello'') None exampleHistory None None 3 = Some s"
      "historyAfterPrepend s = hd (historyAfterPrepend s) # exampleHistory"
      "historyAfterSubmit s = historyAfterPrepend s"
      "perplexity (responses (hd (historyAfterPrepend s))) = js ''Loading...''"
      "chatgpt (responses (hd (historyAfterPrepend s))) = js ''Loading...''"
      "gemini (responses (hd (historyAfterPrepend s))) = js ''Loading...''"
    by blast
  from s(4-6) have l: "responses (hd (historyAfterPrepend s)) = loading"
    by (simp add: loading_def)
  from handleSearch_prepends [of "js '' \<newline>  ''" "Some 1" exampleHistory None None 3] w
  have "trim (js '' \<newline>  '') = []"
    and "handleSearch (js '' \<newline>  '') (Some 1) exampleHistory None None 3 = None"
    by blast+
  with s(1-3) l t w show ?thesis by blast
qed

text \<open>
  C4. For a follow-up query whose parent record is found in the history, the prompt handed
  to the three adapters consists of the user context, the parent's query text, the parent's
  ChatGPT, Gemini and Perplexity responses, in this order, and then the text of the new
  question; each adapter puts its instruction header in front of this prompt.
\<close>

theorem followUp_prompt:
  assumes "findParent sel h = Some p"
    and "handleSearch queryText sel h ut qt now = Some s"
  shows "promptSent s =
       js ''User Type: '' @ orDefault ut (js ''Not specified'')
       @ js ''\<newline>Query Type: '' @ orDefault qt (js ''Not specified'')
       @ js ''\<newline>\<newline>Previous question: '' @ query p
       @ js ''\<newline>Previous answers:\<newline>ChatGPT: '' @ chatgpt (responses p)
       @ js ''\<newline>Gemini: '' @ gemini (responses p)
       @ js ''\<newline>Perplexity: '' @ perplexity (responses p)
       @ js ''\<newline>\<newline>Follow-up question: '' @ queryText
     \<and> (\<exists>header. formattedPrompt ut qt (promptSent s) = header @ promptSent s)"
proof -
  from assms(2) have "promptSent s = contextualPrompt ut qt queryText (findParent sel h)"
    by (auto simp add: handleSearch_def Let_def split: if_splits)
  with assms(1) have "promptSent s = contextualPrompt ut qt queryText (Some p)"
    by simp
  then have 1: "promptSent s =
       js ''User Type: '' @ orDefault ut (js ''Not specified'')
       @ js ''\<newline>Query Type: '' @ orDefault qt (js ''Not specified'')
       @ js ''\<newline>\<newline>Previous question: '' @ query p
       @ js ''\<newline>Previous answers:\<newline>ChatGPT: '' @ chatgpt (responses p)
       @ js ''\<newline>Gemini: '' @ gemini (responses p)
       @ js ''\<newline>Perplexity: '' @ perplexity (responses p)
       @ js ''\<newline>\<newline>Follow-up question: '' @ queryText"
    by (simp add: contextualPrompt_def createPromptWithContext_def js_def)
  have 2: "\<exists>header. formattedPrompt ut qt (promptSent s) = header @ promptSent s"
    unfolding formattedPrompt_def by (metis append.assoc)
  from 1 2 show ?thesis by (rule conjI)
qed


theorem followUp_prompt_witness:
  "findParent (Some 7) [exampleParent] = Some exampleParent
   \<and> (\<exists>s. handleSearch (js ''Why?'') (Some 7) [exampleParent] None None 9 = Some s
        \<and> promptSent s =
            js ''User Type: Not specified\<newline>Query Type: Not specified\<newline>\<newline>''
            @ js ''Previous question: Q\<newline>Previous answers:\<newline>ChatGPT: A\<newline>''
            @ js ''Gemini: B\<newline>Perplexity: C\<newline>\<newline>Follow-up question: Why?'')"
proof -
  have p: "findParent (Some 7) [exampleParent] = Some exampleParent"
    by (simp add: findParent_def exampleParent_def)
  have "trim (js ''Why?'') \<noteq> []"
    by (simp add: js_def trim_def isWhiteSpace_def isLineTerminator_def)
  then obtain s where s: "handleSearch (js ''Why?'') (Some 7) [exampleParent] None None 9 = Some s"
    by (simp add: handleSearch_def Let_def)
  from followUp_prompt [OF p s]
  have "promptSent s =
            js ''User Type: Not specified\<newline>Query Type: Not specified\<newline>\<newline>''
            @ js ''Previous question: Q\<newline>Previous answers:\<newline>ChatGPT: A\<newline>''
            @ js ''Gemini: B\<newline>Perplexity: C\<newline>\<newline>Follow-up question: Why?''"
    by (simp add: exampleParent_def orDefault_def js_def)
  with p s show ?thesis by blast
qed


section \<open>Properties of the file upload\<close>

lemma upload_trace:
  "length content > 50000 \<Longrightarrow>
   handleFileUpload (Some (name, Some (Inr content))) =
     [SetFileName name, SetError None, SetFileName [], SetFileContent [],
      SetError (Some (js ''File content is too large. Please upload a smaller file.''))]"
  by (simp add: handleFileUpload_def readFileContent_def)

text \<open>
  C8. When the text extracted from an uploaded file has more than 50 000 code units, the
  handler sets the error message \<open>File content is too large. Please upload a smaller
  file.\<close>, never calls \<open>setQuery\<close> (the query cell keeps its value), and resets the
  file name and the file content to the empty string.
\<close>

theorem oversized_upload_rejected:
  assumes "length content > 50000"
  shows "handleFileUpload (Some (name, Some (Inr content))) =
       [SetFileName name, SetError None, SetFileName [], SetFileContent [],
        SetError (Some (js ''File content is too large. Please upload a smaller file.''))]
     \<and> \<not> list_ex isSetQuery (handleFileUpload (Some (name, Some (Inr content))))
     \<and> queryCell (foldl applySetter s (handleFileUpload (Some (name, Some (Inr content)))))
         = queryCell s
     \<and> fileName (foldl applySetter s (handleFileUpload (Some (name, Some (Inr content))))) = []
     \<and> fileContent (foldl applySetter s (handleFileUpload (Some (name, Some (Inr content))))) = []
     \<and> error (foldl applySetter s (handleFileUpload (Some (name, Some (Inr content)))))
         = Some (js ''File content is too large. Please upload a smaller file.'')"
  by (simp add: upload_trace [OF assms] isSetQuery_def)

theorem oversized_upload_rejected_witness:
  "length (replicate 50001 (0x61 :: nat)) > 50000
   \<and> handleFileUpload (Some (js ''big.txt'', Some (Inr (replicate 50001 0x61)))) =
       [SetFileName (js ''big.txt''), SetError None, SetFileName [], SetFileContent [],
        SetError (Some (js ''File content is too large. Please upload a smaller file.''))]
   \<and> queryCell (foldl applySetter
        \<lparr>fileName = [], fileContent = [], error = None, queryCell = js ''typed''\<rparr>
        (handleFileUpload (Some (js ''big.txt'', Some (Inr (replicate 50001 0x61)))))) = js ''typed''"
proof -
  have big: "length (replicate 50001 (0x61 :: nat)) > 50000" by simp
  from oversized_upload_rejected [OF big, of "js ''big.txt''"
      "\<lparr>fileName = [], fileContent = [], error = None, queryCell = js ''typed''\<rparr>"] big
  show ?thesis by simp
qed


section \<open>Properties of the provider adapters\<close>

lemma catchAsText_Inl:
  "catchAsText provider (Inl e) = errorText provider (errorMessage e (js ''Unknown error''))"
  by (simp add: catchAsText_def errorText_def)

lemma catchAsText_Inr: "catchAsText provider (Inr v) = Inr v"
  by (simp add: catchAsText_def)

lemma catchAsText_returns: "\<exists>v. catchAsText provider attempt = Inr v"
  by (cases attempt) (simp_all add: catchAsText_def)

text \<open>
  A response whose JSON has a message without \<open>content\<close>: the property path of
  \<open>callOpenAI\<close> reads \<open>undefined\<close> without throwing, and the adapter returns
  \<open>undefined\<close>, not a text of the form \<open>Error (OpenAI): ...\<close>.
\<close>

theorem shape_mismatch_not_reported:
  "callOpenAI exampleTypeError False
     (Resolved \<lparr>status = 200, bodyText = Inr [], bodyJson = Inr exampleBody\<rparr>) = Inr JUndefined"
  by (simp add: callOpenAI_def tryOpenAI_def timeoutPromise_def ok_def catchAsText_def
      exampleBody_def js_def)

text \<open>
  C2 (amended). No exception leaves any of the three adapters. Each returns the text
  \<open>Error (<provider>): <message>\<close> whenever its \<open>try\<close> block throws: when the key
  is missing (\<open>callGemini\<close> and \<open>callPerplexity\<close>, which test it), when the request
  is rejected or, for \<open>callOpenAI\<close>, timed out, when the status is not 2xx, when the
  body is not JSON, and when reading the property path of the JSON throws. When the path
  can be read, the adapter returns what it finds there, whatever it is.
\<close>

theorem adapters_report_failures:
  "(\<exists>v. callOpenAI tm timerFirst fr = Inr v)
   \<and> (\<exists>v. callGemini tm key fr = Inr v)
   \<and> (\<exists>v. callPerplexity tm key fr = Inr v)
   \<and> (isFalsy key \<longrightarrow>
         callGemini tm key fr = errorText (js ''Gemini'') (js ''Gemini API key not found'')
       \<and> callPerplexity tm key fr
           = errorText (js ''Perplexity'') (js ''Perplexity API key not found''))
   \<and> callOpenAI tm True fr = errorText (js ''OpenAI'') (js ''Request timed out'')
   \<and> callOpenAI tm False (Rejected e)
       = errorText (js ''OpenAI'') (errorMessage e (js ''Unknown error''))
   \<and> (\<not> isFalsy key \<longrightarrow>
         callGemini tm key (Rejected e)
           = errorText (js ''Gemini'') (errorMessage e (js ''Unknown error''))
       \<and> callPerplexity tm key (Rejected e)
           = errorText (js ''Perplexity'') (errorMessage e (js ''Unknown error'')))
   \<and> (\<not> ok r \<longrightarrow>
         callOpenAI tm False (Resolved r)
           = errorText (js ''OpenAI'') (errorMessage (httpErrorWithBody r) (js ''Unknown error''))
       \<and> (\<not> isFalsy key \<longrightarrow>
             callGemini tm key (Resolved r)
               = errorText (js ''Gemini'') (js ''HTTP error! status: '' @ showNat (status r))
           \<and> callPerplexity tm key (Resolved r)
               = errorText (js ''Perplexity'')
                   (errorMessage (httpErrorWithBody r) (js ''Unknown error''))))
   \<and> (ok r \<and> bodyJson r = Inl e \<longrightarrow>
         callOpenAI tm False (Resolved r)
           = errorText (js ''OpenAI'') (errorMessage e (js ''Unknown error''))
       \<and> (\<not> isFalsy key \<longrightarrow>
             callGemini tm key (Resolved r)
               = errorText (js ''Gemini'') (errorMessage e (js ''Unknown error''))
           \<and> callPerplexity tm key (Resolved r)
               = errorText (js ''Perplexity'') (errorMessage e (js ''Unknown error''))))
   \<and> (ok r \<and> bodyJson r = Inr data \<longrightarrow>
         callOpenAI tm False (Resolved r)
           = (case getPath tm data [Choices, Index0, Message, Content] of
                Inl e' \<Rightarrow> errorText (js ''OpenAI'') (errorMessage e' (js ''Unknown error''))
              | Inr v \<Rightarrow> Inr v)
       \<and> (\<not> isFalsy key \<longrightarrow>
             callGemini tm key (Resolved r)
               = (case getPath tm data [Candidates, Index0, Content, Parts, Index0, Text] of
                    Inl e' \<Rightarrow> errorText (js ''Gemini'') (errorMessage e' (js ''Unknown error''))
                  | Inr v \<Rightarrow> Inr v)
           \<and> callPerplexity tm key (Resolved r)
               = (case getPath tm data [Choices, Index0, Message, Content] of
                    Inl e' \<Rightarrow>
                      errorText (js ''Perplexity'') (errorMessage e' (js ''Unknown error''))
                  | Inr v \<Rightarrow> Inr v)))"
proof -
  have returns: "(\<exists>v. callOpenAI tm timerFirst fr = Inr v)
      \<and> (\<exists>v. callGemini tm key fr = Inr v) \<and> (\<exists>v. callPerplexity tm key fr = Inr v)"
    by (simp add: callOpenAI_def callGemini_def callPerplexity_def catchAsText_returns)
  have nokey: "isFalsy key \<longrightarrow>
         callGemini tm key fr = errorText (js ''Gemini'') (js ''Gemini API key not found'')
       \<and> callPerplexity tm key fr
           = errorText (js ''Perplexity'') (js ''Perplexity API key not found'')"
    by (simp add: callGemini_def callPerplexity_def tryGemini_def tryPerplexity_def
        catchAsText_Inl)
  have timeout: "callOpenAI tm True fr = errorText (js ''OpenAI'') (js ''Request timed out'')"
    by (simp add: callOpenAI_def tryOpenAI_def timeoutPromise_def catchAsText_Inl)
  have rejected: "callOpenAI tm False (Rejected e)
       = errorText (js ''OpenAI'') (errorMessage e (js ''Unknown error''))
     \<and> (\<not> isFalsy key \<longrightarrow>
         callGemini tm key (Rejected e)
           = errorText (js ''Gemini'') (errorMessage e (js ''Unknown error''))
       \<and> callPerplexity tm key (Rejected e)
           = errorText (js ''Perplexity'') (errorMessage e (js ''Unknown error'')))"
    by (simp add: callOpenAI_def callGemini_def callPerplexity_def tryOpenAI_def tryGemini_def
        tryPerplexity_def timeoutPromise_def catchAsText_Inl)
  have http: "\<not> ok r \<longrightarrow>
         callOpenAI tm False (Resolved r)
           = errorText (js ''OpenAI'') (errorMessage (httpErrorWithBody r) (js ''Unknown error''))
       \<and> (\<not> isFalsy key \<longrightarrow>
             callGemini tm key (Resolved r)
               = errorText (js ''Gemini'') (js ''HTTP error! status: '' @ showNat (status r))
           \<and> callPerplexity tm key (Resolved r)
               = errorText (js ''Perplexity'')
                   (errorMessage (httpErrorWithBody r) (js ''Unknown error'')))"
    by (simp add: callOpenAI_def callGemini_def callPerplexity_def tryOpenAI_def tryGemini_def
        tryPerplexity_def timeoutPromise_def catchAsText_Inl httpError_def)
  have json: "ok r \<and> bodyJson r = Inl e \<longrightarrow>
         callOpenAI tm False (Resolved r)
           = errorText (js ''OpenAI'') (errorMessage e (js ''Unknown error''))
       \<and> (\<not> isFalsy key \<longrightarrow>
             callGemini tm key (Resolved r)
               = errorText (js ''Gemini'') (errorMessage e (js ''Unknown error''))
           \<and> callPerplexity tm key (Resolved r)
               = errorText (js ''Perplexity'') (errorMessage e (js ''Unknown error'')))"
    by (simp add: callOpenAI_def callGemini_def callPerplexity_def tryOpenAI_def tryGemini_def
        tryPerplexity_def timeoutPromise_def catchAsText_Inl)
  have shape: "ok r \<and> bodyJson r = Inr data \<longrightarrow>
         callOpenAI tm False (Resolved r)
           = (case getPath tm data [Choices, Index0, Message, Content] of
                Inl e' \<Rightarrow> errorText (js ''OpenAI'') (errorMessage e' (js ''Unknown error''))
              | Inr v \<Rightarrow> Inr v)
       \<and> (\<not> isFalsy key \<longrightarrow>
             callGemini tm key (Resolved r)
               = (case getPath tm data [Candidates, Index0, Content, Parts, Index0, Text] of
                    Inl e' \<Rightarrow> errorText (js ''Gemini'') (errorMessage e' (js ''Unknown error''))
                  | Inr v \<Rightarrow> Inr v)
           \<and> callPerplexity tm key (Resolved r)
               = (case getPath tm data [Choices, Index0, Message, Content] of
                    Inl e' \<Rightarrow>
                      errorText (js ''Perplexity'') (errorMessage e' (js ''Unknown error''))
                  | Inr v \<Rightarrow> Inr v))"
    by (simp add: callOpenAI_def callGemini_def callPerplexity_def tryOpenAI_def tryGemini_def
        tryPerplexity_def timeoutPromise_def catchAsText_def errorText_def
        del: getPath.simps split: sum.splits)
  from returns nokey timeout rejected http json shape show ?thesis
    by blast
qed

theorem adapters_report_failures_witness:
  "callGemini exampleTypeError None (Rejected NotAnError)
     = errorText (js ''Gemini'') (js ''Gemini API key not found'')
   \<and> callPerplexity exampleTypeError (Some (js ''k'')) (Rejected (ErrorObject (js ''Failed to fetch'')))
     = errorText (js ''Perplexity'') (js ''Failed to fetch'')
   \<and> callGemini exampleTypeError (Some (js ''k''))
       (Resolved \<lparr>status = 500, bodyText = Inr (js ''down''), bodyJson = Inl NotAnError\<rparr>)
     = errorText (js ''Gemini'') (js ''HTTP error! status: 500'')
   \<and> callOpenAI exampleTypeError False
       (Resolved \<lparr>status = 200, bodyText = Inr [], bodyJson = Inl (ErrorObject (js ''Unexpected token''))\<rparr>)
     = errorText (js ''OpenAI'') (js ''Unexpected token'')
   \<and> callPerplexity exampleTypeError (Some (js ''k''))
       (Resolved \<lparr>status = 200, bodyText = Inr [], bodyJson = Inr (JObject [])\<rparr>)
     = errorText (js ''Perplexity'') (js ''Cannot read properties of undefined'')"
proof -
  let ?k = "Some (js ''k'')"
  let ?down = "\<lparr>status = 500, bodyText = Inr (js ''down''), bodyJson = Inl NotAnError\<rparr>"
  let ?bad = "\<lparr>status = 200, bodyText = Inr [], bodyJson = Inl (ErrorObject (js ''Unexpected token''))\<rparr>"
  let ?empty = "\<lparr>status = 200, bodyText = Inr [], bodyJson = Inr (JObject [])\<rparr>"
  have nokey: "isFalsy None"
    by (simp add: isFalsy_def)
  have key: "\<not> isFalsy ?k"
    by (simp add: isFalsy_def js_def)
  have down: "\<not> ok ?down"
    by (simp add: ok_def)
  have bad: "ok ?bad \<and> bodyJson ?bad = Inl (ErrorObject (js ''Unexpected token''))"
    by (simp add: ok_def)
  have empty: "ok ?empty \<and> bodyJson ?empty = Inr (JObject [])"
    by (simp add: ok_def)
  have digits: "showNat 500 = js ''500''"
    by (simp add: showNat.simps [of 500] showNat.simps [of 50] showNat.simps [of 5] js_def)
  have path: "getPath exampleTypeError (JObject []) [Choices, Index0, Message, Content]
      = Inl (ErrorObject (js ''Cannot read properties of undefined''))"
    by (simp add: exampleTypeError_def)
  from adapters_report_failures
      [where tm = exampleTypeError and fr = "Rejected NotAnError" and key = None]
    nokey
  have 1: "callGemini exampleTypeError None (Rejected NotAnError)
     = errorText (js ''Gemini'') (js ''Gemini API key not found'')"
    by blast
  from adapters_report_failures
      [where tm = exampleTypeError and key = ?k and e = "ErrorObject (js ''Failed to fetch'')"
          and r = ?down]
    key down
  have 2: "callPerplexity exampleTypeError ?k (Rejected (ErrorObject (js ''Failed to fetch'')))
       = errorText (js ''Perplexity'') (errorMessage (ErrorObject (js ''Failed to fetch'')) (js ''Unknown error''))"
    and 3: "callGemini exampleTypeError ?k (Resolved ?down)
       = errorText (js ''Gemini'') (js ''HTTP error! status: '' @ showNat (status ?down))"
    by blast+
  from adapters_report_failures
      [where tm = exampleTypeError and e = "ErrorObject (js ''Unexpected token'')" and r = ?bad]
    bad
  have 4: "callOpenAI exampleTypeError False (Resolved ?bad)
       = errorText (js ''OpenAI'') (errorMessage (ErrorObject (js ''Unexpected token'')) (js ''Unknown error''))"
    by blast
  from adapters_report_failures
      [where tm = exampleTypeError and key = ?k and r = ?empty and data = "JObject []"]
    key empty
  have "callPerplexity exampleTypeError ?k (Resolved ?empty)
       = (case getPath exampleTypeError (JObject []) [Choices, Index0, Message, Content] of
            Inl e' \<Rightarrow> errorText (js ''Perplexity'') (errorMessage e' (js ''Unknown error''))
          | Inr v \<Rightarrow> Inr v)"
    by blast
  with path have 5: "callPerplexity exampleTypeError ?k (Resolved ?empty)
       = errorText (js ''Perplexity'') (js ''Cannot read properties of undefined'')"
    by simp
  from 3 digits have a3: "callGemini exampleTypeError ?k (Resolved ?down)
       = errorText (js ''Gemini'') (js ''HTTP error! status: 500'')"
    by (simp add: js_def)
  from 1 2 a3 4 5 show ?thesis by simp
qed


section \<open>Properties of the global replacements\<close>

lemma matchCRLF_consumes: "matchCRLF s = Some (out, rest) \<Longrightarrow> length rest < length s"
  by (cases s) (auto simp add: matchCRLF_def startsWith_def split: if_splits)

lemma matchNewlines_consumes: "matchNewlines s = Some (out, rest) \<Longrightarrow> length rest < length s"
  by (cases s) (auto simp add: matchNewlines_def Let_def split: if_splits)

lemma findFence_shorter: "findFence s = Some (inner, rest) \<Longrightarrow> length rest < length s"
  by (induction s arbitrary: inner) (auto split: if_splits option.splits)

lemma matchCodeBlock_consumes: "matchCodeBlock s = Some (out, rest) \<Longrightarrow> length rest < length s"
proof -
  assume m: "matchCodeBlock s = Some (out, rest)"
  then obtain c r inner where r: "dropWhile isLowerAZ (drop 3 s) = c # r"
      and f: "findFence r = Some (inner, rest)"
    by (auto simp add: matchCodeBlock_def split: if_splits list.splits option.splits)
  from f have "length rest < length r" by (rule findFence_shorter)
  moreover have "length (c # r) \<le> length (drop 3 s)"
    unfolding r [symmetric] by (rule length_dropWhile_le)
  ultimately show ?thesis by simp
qed

lemma matchDelimited_consumes:
  "d \<noteq> [] \<Longrightarrow> matchDelimited d c l r s = Some (out, rest) \<Longrightarrow> length rest < length s"
proof -
  assume d: "d \<noteq> []" and m: "matchDelimited d c l r s = Some (out, rest)"
  from m have s: "startsWith s d"
    and rest: "rest = drop (length d) (dropWhile (\<lambda>x. x \<noteq> c) (drop (length d) s))"
    by (auto simp add: matchDelimited_def Let_def split: if_splits)
  from s d have "s \<noteq> []" by (auto simp add: startsWith_def)
  have "length rest \<le> length (dropWhile (\<lambda>x. x \<noteq> c) (drop (length d) s))"
    unfolding rest by simp
  also have "\<dots> \<le> length (drop (length d) s)" by (rule length_dropWhile_le)
  also have "\<dots> < length s" using d \<open>s \<noteq> []\<close> by simp
  finally show ?thesis .
qed

lemma matchLink_consumes: "matchLink s = Some (out, rest) \<Longrightarrow> length rest < length s"
proof -
  assume m: "matchLink s = Some (out, rest)"
  then obtain c r where s: "s = c # r"
    and rest: "rest = drop 1 (dropWhile (\<lambda>x. x \<noteq> 0x29)
                 (drop 2 (dropWhile (\<lambda>x. x \<noteq> 0x5D) r)))"
    by (auto simp add: matchLink_def Let_def split: if_splits list.splits)
  have "length rest \<le> length (dropWhile (\<lambda>x. x \<noteq> 0x29) (drop 2 (dropWhile (\<lambda>x. x \<noteq> 0x5D) r)))"
    unfolding rest by simp
  also have "\<dots> \<le> length (drop 2 (dropWhile (\<lambda>x. x \<noteq> 0x5D) r))"
    by (rule length_dropWhile_le)
  also have "\<dots> \<le> length (dropWhile (\<lambda>x. x \<noteq> 0x5D) r)" by simp
  also have "\<dots> \<le> length r" by (rule length_dropWhile_le)
  finally show ?thesis using s by simp
qed

lemma mapLines_line: "oneLine l \<Longrightarrow> mapLines f cur (l @ s) = mapLines f (cur @ l) s"
  by (induction l arbitrary: cur) (simp_all add: oneLine_def)

lemma mapLines_oneLine: "oneLine l \<Longrightarrow> mapLines f [] l = f l"
  using mapLines_line [of l f "[]" "[]"] by simp

lemma mapLines_terminator:
  "isLineTerminator t \<Longrightarrow>
   mapLines f cur (a @ t # b) = mapLines f cur a @ t # mapLines f [] b"
  by (induction a arbitrary: cur) simp_all

lemma mapLines_compose:
  assumes g: "\<And>l. oneLine l \<Longrightarrow> oneLine (g l)"
  shows "oneLine cur \<Longrightarrow> mapLines f [] (mapLines g cur s) = mapLines (\<lambda>l. f (g l)) cur s"
proof (induction s arbitrary: cur)
  case Nil
  then show ?case by (simp add: mapLines_oneLine g)
next
  case (Cons c s)
  show ?case
  proof (cases "isLineTerminator c")
    case True
    have "mapLines f [] (g cur @ c # mapLines g [] s)
        = mapLines f [] (g cur) @ c # mapLines f [] (mapLines g [] s)"
      using True by (rule mapLines_terminator)
    also have "mapLines f [] (g cur) = f (g cur)"
      using Cons.prems by (simp add: mapLines_oneLine g)
    also have "mapLines f [] (mapLines g [] s) = mapLines (\<lambda>l. f (g l)) [] s"
      by (rule Cons.IH) (simp add: oneLine_def)
    finally show ?thesis using True by simp
  next
    case False
    with Cons.prems have "oneLine (cur @ [c])" by (simp add: oneLine_def)
    then have "mapLines f [] (mapLines g (cur @ [c]) s) = mapLines (\<lambda>l. f (g l)) (cur @ [c]) s"
      by (rule Cons.IH)
    with False show ?thesis by simp
  qed
qed

lemma replaceLines_compose:
  "(\<And>l. oneLine l \<Longrightarrow> oneLine (g l)) \<Longrightarrow>
   replaceLines f (replaceLines g s) = replaceLines (\<lambda>l. f (g l)) s"
  unfolding replaceLines_def by (rule mapLines_compose) (simp_all add: oneLine_def)

lemma replaceLines_at_line:
  assumes f: "f [] = []" and pre: "lineStart pre" and post: "lineEnd post" and l: "oneLine l"
  shows "replaceLines f (pre @ l @ post) = replaceLines f pre @ f l @ replaceLines f post"
proof -
  have tail: "mapLines f [] (l @ post) = f l @ mapLines f [] post"
  proof (cases post)
    case Nil
    then show ?thesis using l f by (simp add: mapLines_oneLine)
  next
    case (Cons t post')
    with post have t: "isLineTerminator t" by (simp add: lineEnd_def)
    have "mapLines f [] (l @ t # post') = mapLines f [] l @ t # mapLines f [] post'"
      using t by (rule mapLines_terminator)
    then show ?thesis using Cons t l f by (simp add: mapLines_oneLine)
  qed
  show ?thesis
  proof (cases "pre = []")
    case True
    then show ?thesis using tail f by (simp add: replaceLines_def)
  next
    case False
    then obtain p t where p: "pre = p @ [t]" by (metis rev_exhaust)
    with pre have t: "isLineTerminator t" by (simp add: lineStart_def)
    have "mapLines f [] (p @ t # (l @ post)) = mapLines f [] p @ t # mapLines f [] (l @ post)"
      using t by (rule mapLines_terminator)
    moreover have "mapLines f [] (p @ t # []) = mapLines f [] p @ t # mapLines f [] []"
      using t by (rule mapLines_terminator)
    ultimately show ?thesis using p tail f by (simp add: replaceLines_def)
  qed
qed


section \<open>Properties of the line patterns\<close>

lemmas glyph_defs = glyphSmall_def glyphMedium_def glyphLarge_def glyphBullet_def glyphPin_def
  glyphNote_def

lemma oneLine_append: "oneLine (a @ b) \<longleftrightarrow> oneLine a \<and> oneLine b"
  by (simp add: oneLine_def)

lemma oneLine_drop: "oneLine l \<Longrightarrow> oneLine (drop n l)"
  unfolding oneLine_def list_all_iff by (meson in_set_dropD)

lemma oneLine_dropOptionalSpace: "oneLine l \<Longrightarrow> oneLine (dropOptionalSpace l)"
  by (simp add: dropOptionalSpace_def oneLine_drop)

lemma oneLine_Cons: "oneLine (c # l) \<longleftrightarrow> \<not> isLineTerminator c \<and> oneLine l"
  by (simp add: oneLine_def)

lemma oneLine_Nil: "oneLine []"
  by (simp add: oneLine_def)

lemma oneLine_prefixRule: "oneLine g \<Longrightarrow> oneLine l \<Longrightarrow> oneLine (prefixRule p g l)"
  by (simp add: prefixRule_def oneLine_append oneLine_Cons oneLine_dropOptionalSpace oneLine_drop
      isLineTerminator_def)

lemma oneLine_glyphs:
  "oneLine glyphSmall" "oneLine glyphMedium" "oneLine glyphLarge" "oneLine glyphBullet"
  "oneLine glyphPin" "oneLine glyphNote"
  by (simp_all add: glyph_defs oneLine_def isLineTerminator_def)

lemma oneLine_takeWhile: "oneLine l \<Longrightarrow> oneLine (takeWhile P l)"
  unfolding oneLine_def list_all_iff by (meson set_takeWhileD)

lemma oneLine_dropWhile: "oneLine l \<Longrightarrow> oneLine (dropWhile P l)"
  unfolding oneLine_def list_all_iff by (meson set_dropWhileD)

lemma oneLine_numberedRule: "oneLine l \<Longrightarrow> oneLine (numberedRule l)"
proof -
  assume l: "oneLine l"
  then show ?thesis
    using oneLine_glyphs(5)
    by (simp add: numberedRule_def Let_def oneLine_append oneLine_Cons oneLine_Nil
        oneLine_takeWhile oneLine_dropOptionalSpace oneLine_drop oneLine_dropWhile
        isLineTerminator_def)
qed

lemma oneLine_headingLine: "oneLine l \<Longrightarrow> oneLine (headingLine l)"
  by (simp add: headingLine_def oneLine_prefixRule oneLine_glyphs)

lemma oneLine_glyphLine: "oneLine l \<Longrightarrow> oneLine (glyphLine l)"
  by (simp add: glyphLine_def oneLine_prefixRule oneLine_numberedRule oneLine_headingLine
      oneLine_glyphs)

lemma headings_lines: "headings s = replaceLines headingLine s"
proof -
  have "headings s =
      replaceLines (prefixRule [0x23] glyphLarge)
        (replaceLines (\<lambda>l. prefixRule [0x23, 0x23] glyphMedium
                              (prefixRule [0x23, 0x23, 0x23] glyphSmall l)) s)"
    unfolding headings_def
    by (simp add: replaceLines_compose oneLine_prefixRule oneLine_glyphs)
  also have "\<dots> = replaceLines (\<lambda>l. headingLine l) s"
    unfolding headingLine_def
    by (rule replaceLines_compose) (simp add: oneLine_prefixRule oneLine_glyphs)
  finally show ?thesis by simp
qed

lemma glyphSteps_lines: "glyphSteps s = replaceLines glyphLine s"
proof -
  have 1: "replaceLines (prefixRule [0x2A] glyphBullet) (headings s)
      = replaceLines (\<lambda>l. prefixRule [0x2A] glyphBullet (headingLine l)) s"
    unfolding headings_lines by (rule replaceLines_compose) (rule oneLine_headingLine)
  have 2: "replaceLines (prefixRule [0x2D] glyphBullet)
        (replaceLines (\<lambda>l. prefixRule [0x2A] glyphBullet (headingLine l)) s)
      = replaceLines (\<lambda>l. prefixRule [0x2D] glyphBullet
                            (prefixRule [0x2A] glyphBullet (headingLine l))) s"
    by (rule replaceLines_compose)
       (simp add: oneLine_prefixRule oneLine_headingLine oneLine_glyphs)
  have 3: "replaceLines numberedRule
        (replaceLines (\<lambda>l. prefixRule [0x2D] glyphBullet
                            (prefixRule [0x2A] glyphBullet (headingLine l))) s)
      = replaceLines (\<lambda>l. numberedRule (prefixRule [0x2D] glyphBullet
                            (prefixRule [0x2A] glyphBullet (headingLine l)))) s"
    by (rule replaceLines_compose)
       (simp add: oneLine_prefixRule oneLine_headingLine oneLine_glyphs)
  have 4: "replaceLines (prefixRule [0x3E] glyphNote)
        (replaceLines (\<lambda>l. numberedRule (prefixRule [0x2D] glyphBullet
                            (prefixRule [0x2A] glyphBullet (headingLine l)))) s)
      = replaceLines (\<lambda>l. glyphLine l) s"
    unfolding glyphLine_def
    by (rule replaceLines_compose)
       (simp add: oneLine_prefixRule oneLine_headingLine oneLine_glyphs oneLine_numberedRule)
  show ?thesis
    unfolding glyphSteps_def quoteNotes_def listMarkers_def 1 2 3 4 by simp
qed

lemma marked_prefixRule:
  "marked l \<Longrightarrow> p \<noteq> [] \<Longrightarrow> hd p \<noteq> 0xD83D \<Longrightarrow> hd p \<noteq> 0x2022 \<Longrightarrow> prefixRule p g l = l"
  by (cases l; cases p) (auto simp add: marked_def prefixRule_def startsWith_def)

lemma marked_numberedRule: "marked l \<Longrightarrow> numberedRule l = l"
  by (cases l) (auto simp add: marked_def numberedRule_def isDigit_def)

lemma prefixRule_marks:
  "g \<noteq> [] \<Longrightarrow> hd g = 0xD83D \<or> hd g = 0x2022 \<Longrightarrow> prefixRule p g l = l \<or> marked (prefixRule p g l)"
  by (cases g) (auto simp add: marked_def prefixRule_def)

lemma numberedRule_marks: "numberedRule l = l \<or> marked (numberedRule l)"
  by (simp add: marked_def numberedRule_def Let_def glyphPin_def)

lemma marked_headingLine: "marked l \<Longrightarrow> headingLine l = l"
  by (simp add: headingLine_def marked_prefixRule)

lemma marked_glyphLine: "marked l \<Longrightarrow> glyphLine l = l"
  by (simp add: glyphLine_def marked_headingLine marked_prefixRule marked_numberedRule)

lemma glyphLine_marks: "glyphLine l = l \<or> marked (glyphLine l)"
proof -
  let ?h3 = "prefixRule [0x23, 0x23, 0x23] glyphSmall l"
  let ?h2 = "prefixRule [0x23, 0x23] glyphMedium ?h3"
  let ?h1 = "prefixRule [0x23] glyphLarge ?h2"
  let ?star = "prefixRule [0x2A] glyphBullet ?h1"
  let ?dash = "prefixRule [0x2D] glyphBullet ?star"
  let ?num = "numberedRule ?dash"
  let ?note = "prefixRule [0x3E] glyphNote ?num"
  have g: "glyphLine l = ?note" by (simp add: glyphLine_def headingLine_def)
  have s3: "?h3 = l \<or> marked ?h3" by (rule prefixRule_marks) (simp_all add: glyph_defs)
  have s2: "?h2 = ?h3 \<or> marked ?h2" by (rule prefixRule_marks) (simp_all add: glyph_defs)
  have s1: "?h1 = ?h2 \<or> marked ?h1" by (rule prefixRule_marks) (simp_all add: glyph_defs)
  have sa: "?star = ?h1 \<or> marked ?star" by (rule prefixRule_marks) (simp_all add: glyph_defs)
  have sd: "?dash = ?star \<or> marked ?dash" by (rule prefixRule_marks) (simp_all add: glyph_defs)
  have sn: "?num = ?dash \<or> marked ?num" by (rule numberedRule_marks)
  have sq: "?note = ?num \<or> marked ?note" by (rule prefixRule_marks) (simp_all add: glyph_defs)
  from s3 s2 s1 sa sd sn sq have "?note = l \<or> marked ?note" by metis
  with g show ?thesis by simp
qed

lemma glyphLine_idem: "glyphLine (glyphLine l) = glyphLine l"
  using glyphLine_marks [of l] marked_glyphLine [of "glyphLine l"] by auto

lemma carriesGlyph_marked: "carriesGlyph l \<Longrightarrow> marked l"
  by (cases l) (auto simp add: carriesGlyph_def marked_def startsWith_def glyph_defs)

lemma glyphLine_Nil: "glyphLine [] = []"
  by (simp add: glyphLine_def headingLine_def prefixRule_def numberedRule_def startsWith_def)

lemma headingLine_Nil: "headingLine [] = []"
  by (simp add: headingLine_def prefixRule_def startsWith_def)

lemma headingLine_small: "headingLine (js ''### '' @ r) = glyphSmall @ js '' '' @ r"
  by (simp add: headingLine_def prefixRule_def startsWith_def dropOptionalSpace_def js_def
      glyph_defs)

lemma headingLine_medium: "headingLine (js ''## '' @ r) = glyphMedium @ js '' '' @ r"
  by (simp add: headingLine_def prefixRule_def startsWith_def dropOptionalSpace_def js_def
      glyph_defs)

lemma headingLine_large: "headingLine (js ''# '' @ r) = glyphLarge @ js '' '' @ r"
  by (cases r) (simp_all add: headingLine_def prefixRule_def startsWith_def dropOptionalSpace_def
      js_def glyph_defs)


section \<open>Properties of the normalizer\<close>

lemmas norm_defs = standardizeResponse_def spacing_def links_def emphasis_def inlineCode_def
  quoteNotes_def listMarkers_def headings_def codeBlocks_def cleanUp_def replaceLines_def
  numberedRule_def prefixRule_def dropOptionalSpace_def matchLink_def matchDelimited_def
  matchCodeBlock_def matchNewlines_def matchCRLF_def trim_def isWhiteSpace_def
  isLineTerminator_def startsWith_def js_def glyphSmall_def glyphMedium_def glyphLarge_def
  glyphBullet_def glyphPin_def glyphNote_def fence_def isLowerAZ_def isDigit_def
  openBracket_def closeBracket_def

lemma headings_at_line:
  assumes "lineStart pre" and "lineEnd post" and "oneLine l"
  shows "headings (pre @ l @ post) = headings pre @ headingLine l @ headings post"
  unfolding headings_lines using headingLine_Nil assms by (rule replaceLines_at_line)

lemma standardize_title:
  "standardizeResponse (js ''# Title\<newline>\<newline>Some text'')
     = glyphLarge @ js '' Title\<newline>\<newline>Some text''"
  by (simp add: norm_defs Let_def)

lemma replaceAll_untriggered:
  assumes m: "\<And>c t. \<not> trig c \<Longrightarrow> m (c # t) = None"
  shows "\<forall>c \<in> set s. \<not> trig c \<Longrightarrow> replaceAll m s = s"
  by (induction s) (simp_all add: m)

lemma matchCRLF_other: "c \<noteq> 0x0D \<Longrightarrow> matchCRLF (c # t) = None"
  by (simp add: matchCRLF_def startsWith_def)

lemma matchNewlines_other: "c \<noteq> 0x0A \<Longrightarrow> matchNewlines (c # t) = None"
  by (simp add: matchNewlines_def)

lemma matchCodeBlock_other: "c \<noteq> 0x60 \<Longrightarrow> matchCodeBlock (c # t) = None"
  by (simp add: matchCodeBlock_def startsWith_def fence_def)

lemma matchDelimited_other: "c \<noteq> x \<Longrightarrow> matchDelimited (x # d) x l r (c # t) = None"
  by (simp add: matchDelimited_def startsWith_def)

lemma matchLink_other: "c \<noteq> 0x5B \<Longrightarrow> matchLink (c # t) = None"
  by (simp add: matchLink_def)

lemma trim_unchanged:
  "s \<noteq> [] \<Longrightarrow> \<not> isWhiteSpace (hd s) \<Longrightarrow> \<not> isWhiteSpace (last s) \<Longrightarrow> trim s = s"
proof -
  assume s: "s \<noteq> []" and h: "\<not> isWhiteSpace (hd s)" and l: "\<not> isWhiteSpace (last s)"
  from s h have 1: "dropWhile isWhiteSpace s = s"
    by (cases s) simp_all
  from s l have 2: "dropWhile isWhiteSpace (rev s) = rev s"
    by (cases "rev s") (simp_all add: last_rev [symmetric] del: last_rev)
  show ?thesis by (simp add: trim_def 1 2)
qed

lemma splitLines_one: "\<forall>c \<in> set s. c \<noteq> 0x0A \<Longrightarrow> splitLines cur s = [cur @ s]"
  by (induction s arbitrary: cur) simp_all

lemma glyphSteps_at_line:
  assumes "lineStart pre" and "lineEnd post" and "oneLine l"
  shows "glyphSteps (pre @ l @ post) = glyphSteps pre @ glyphLine l @ glyphSteps post"
  unfolding glyphSteps_lines using glyphLine_Nil assms by (rule replaceLines_at_line)

lemma glyphLine_heading: "marked (headingLine l) \<Longrightarrow> glyphLine l = headingLine l"
  by (simp add: glyphLine_def marked_prefixRule marked_numberedRule)

lemma glyphLine_small: "glyphLine (js ''### '' @ r) = glyphSmall @ js '' '' @ r"
  by (rule trans [OF glyphLine_heading])
     (simp_all add: headingLine_small marked_def glyphSmall_def)

lemma glyphLine_medium: "glyphLine (js ''## '' @ r) = glyphMedium @ js '' '' @ r"
  by (rule trans [OF glyphLine_heading])
     (simp_all add: headingLine_medium marked_def glyphMedium_def)

lemma glyphLine_large: "glyphLine (js ''# '' @ r) = glyphLarge @ js '' '' @ r"
  by (rule trans [OF glyphLine_heading])
     (simp_all add: headingLine_large marked_def glyphLarge_def)

lemma standardize_single_line:
  assumes ends: "text \<noteq> []" "\<not> isWhiteSpace (hd text)" "\<not> isWhiteSpace (last text)"
    and plain: "\<forall>c \<in> set text. c \<noteq> 0x0A \<and> c \<noteq> 0x0D \<and> c \<noteq> 0x60"
    and line: "oneLine text"
    and out: "out \<noteq> []" "\<not> isWhiteSpace (hd out)" "\<not> isWhiteSpace (last out)"
    and quiet: "\<forall>c \<in> set out. c \<noteq> 0x0A \<and> c \<noteq> 0x60 \<and> c \<noteq> 0x2A \<and> c \<noteq> 0x5F \<and> c \<noteq> 0x5B"
    and conv: "glyphLine text = out"
  shows "standardizeResponse text = out"
proof -
  have crlf: "replaceAll matchCRLF text = text"
    using plain by (intro replaceAll_untriggered [where trig = "\<lambda>c. c = 0x0D"])
      (simp_all add: matchCRLF_other)
  have nl: "replaceAll matchNewlines text = text"
    using plain by (intro replaceAll_untriggered [where trig = "\<lambda>c. c = 0x0A"])
      (simp_all add: matchNewlines_other)
  have clean: "cleanUp text = text"
    by (simp add: cleanUp_def trim_unchanged ends crlf nl)
  have code: "codeBlocks text = text"
    unfolding codeBlocks_def
    using plain by (intro replaceAll_untriggered [where trig = "\<lambda>c. c = 0x60"])
      (simp_all add: matchCodeBlock_other)
  have steps: "glyphSteps text = out"
    by (simp add: glyphSteps_lines replaceLines_def mapLines_oneLine line conv)
  have inline: "inlineCode out = out"
    unfolding inlineCode_def
    using quiet by (intro replaceAll_untriggered [where trig = "\<lambda>c. c = 0x60"])
      (simp_all add: matchDelimited_other)
  have star: "replaceAll (matchDelimited [0x2A, 0x2A] 0x2A [] []) out = out"
      "replaceAll (matchDelimited [0x2A] 0x2A [] []) out = out"
    using quiet by (intro replaceAll_untriggered [where trig = "\<lambda>c. c = 0x2A"];
      simp add: matchDelimited_other)+
  have under: "replaceAll (matchDelimited [0x5F, 0x5F] 0x5F [] []) out = out"
      "replaceAll (matchDelimited [0x5F] 0x5F [] []) out = out"
    using quiet by (intro replaceAll_untriggered [where trig = "\<lambda>c. c = 0x5F"];
      simp add: matchDelimited_other)+
  have emph: "emphasis out = out"
    by (simp add: emphasis_def star under)
  have link: "links out = out"
    unfolding links_def
    using quiet by (intro replaceAll_untriggered [where trig = "\<lambda>c. c = 0x5B"])
      (simp_all add: matchLink_other)
  have split: "splitLines [] out = [out]"
    using quiet by (simp add: splitLines_one)
  have space: "spacing out = out"
    by (simp add: spacing_def split trim_unchanged out)
  have "standardizeResponse text
      = spacing (links (emphasis (inlineCode (glyphSteps (codeBlocks (cleanUp text))))))"
    using ends(1) by (simp add: standardizeResponse_def glyphSteps_def)
  then show ?thesis
    by (simp add: clean code steps inline emph link space)
qed


lemma heading_text_ends:
  assumes "r \<noteq> []" and "\<not> isWhiteSpace (last r)"
  shows "\<not> isWhiteSpace (hd (js ''### '' @ r))" "\<not> isWhiteSpace (last (js ''### '' @ r))"
    "\<not> isWhiteSpace (hd (js ''## '' @ r))" "\<not> isWhiteSpace (last (js ''## '' @ r))"
    "\<not> isWhiteSpace (hd (js ''# '' @ r))" "\<not> isWhiteSpace (last (js ''# '' @ r))"
    "\<not> isWhiteSpace (hd (glyphSmall @ js '' '' @ r))"
    "\<not> isWhiteSpace (last (glyphSmall @ js '' '' @ r))"
    "\<not> isWhiteSpace (hd (glyphMedium @ js '' '' @ r))"
    "\<not> isWhiteSpace (last (glyphMedium @ js '' '' @ r))"
    "\<not> isWhiteSpace (hd (glyphLarge @ js '' '' @ r))"
    "\<not> isWhiteSpace (last (glyphLarge @ js '' '' @ r))"
  using assms by (simp_all add: js_def glyph_defs isWhiteSpace_def isLineTerminator_def)

lemma heading_text_plain:
  assumes "oneLine r" and "noInlineMarkup r"
  shows "\<forall>c \<in> set (js ''### '' @ r). c \<noteq> 0x0A \<and> c \<noteq> 0x0D \<and> c \<noteq> 0x60"
    "\<forall>c \<in> set (js ''## '' @ r). c \<noteq> 0x0A \<and> c \<noteq> 0x0D \<and> c \<noteq> 0x60"
    "\<forall>c \<in> set (js ''# '' @ r). c \<noteq> 0x0A \<and> c \<noteq> 0x0D \<and> c \<noteq> 0x60"
    "\<forall>c \<in> set (glyphSmall @ js '' '' @ r).
        c \<noteq> 0x0A \<and> c \<noteq> 0x60 \<and> c \<noteq> 0x2A \<and> c \<noteq> 0x5F \<and> c \<noteq> 0x5B"
    "\<forall>c \<in> set (glyphMedium @ js '' '' @ r).
        c \<noteq> 0x0A \<and> c \<noteq> 0x60 \<and> c \<noteq> 0x2A \<and> c \<noteq> 0x5F \<and> c \<noteq> 0x5B"
    "\<forall>c \<in> set (glyphLarge @ js '' '' @ r).
        c \<noteq> 0x0A \<and> c \<noteq> 0x60 \<and> c \<noteq> 0x2A \<and> c \<noteq> 0x5F \<and> c \<noteq> 0x5B"
  using assms
  by (auto simp add: js_def glyph_defs oneLine_def noInlineMarkup_def list_all_iff
      isLineTerminator_def)

lemma heading_text_oneLine:
  assumes "oneLine r"
  shows "oneLine (js ''### '' @ r)" "oneLine (js ''## '' @ r)" "oneLine (js ''# '' @ r)"
  using assms by (simp_all add: js_def oneLine_Cons isLineTerminator_def)

lemma standardize_heading_line:
  assumes r: "oneLine r" "r \<noteq> []" "\<not> isWhiteSpace (last r)" "noInlineMarkup r"
  shows "standardizeResponse (js ''### '' @ r) = glyphSmall @ js '' '' @ r"
    and "standardizeResponse (js ''## '' @ r) = glyphMedium @ js '' '' @ r"
    and "standardizeResponse (js ''# '' @ r) = glyphLarge @ js '' '' @ r"
proof -
  show "standardizeResponse (js ''### '' @ r) = glyphSmall @ js '' '' @ r"
    by (rule standardize_single_line)
       (simp_all add: heading_text_ends [OF r(2,3)] heading_text_plain [OF r(1,4)]
         heading_text_oneLine [OF r(1)] glyphLine_small, simp_all add: js_def glyph_defs)
  show "standardizeResponse (js ''## '' @ r) = glyphMedium @ js '' '' @ r"
    by (rule standardize_single_line)
       (simp_all add: heading_text_ends [OF r(2,3)] heading_text_plain [OF r(1,4)]
         heading_text_oneLine [OF r(1)] glyphLine_medium, simp_all add: js_def glyph_defs)
  show "standardizeResponse (js ''# '' @ r) = glyphLarge @ js '' '' @ r"
    by (rule standardize_single_line)
       (simp_all add: heading_text_ends [OF r(2,3)] heading_text_plain [OF r(1,4)]
         heading_text_oneLine [OF r(1)] glyphLine_large, simp_all add: js_def glyph_defs)
qed

lemma standardize_at_line:
  assumes "raw \<noteq> []" and "codeBlocks (cleanUp raw) = pre @ l @ post"
    and "lineStart pre" and "lineEnd post" and "oneLine l"
  shows "standardizeResponse raw
     = spacing (links (emphasis (inlineCode (glyphSteps pre @ glyphLine l @ glyphSteps post))))"
proof -
  have "standardizeResponse raw
      = spacing (links (emphasis (inlineCode (glyphSteps (codeBlocks (cleanUp raw))))))"
    using assms(1) by (simp add: standardizeResponse_def glyphSteps_def)
  also have "glyphSteps (codeBlocks (cleanUp raw))
      = glyphSteps pre @ glyphLine l @ glyphSteps post"
    unfolding assms(2) using assms(3-5) by (rule glyphSteps_at_line)
  finally show ?thesis .
qed

text \<open>
  A heading line that directly follows an opening fence: the fence replacement joins it to
  the opening bracket, so it no longer starts a line when the heading patterns run. The
  line \<open>### Heading\<close> of the input is not converted, the line \<open># more\<close> after it is.
\<close>

theorem heading_after_fence_not_converted:
  "standardizeResponse (js ''```\<newline>### Heading\<newline># more\<newline>```'')
     = openBracket # js ''### Heading\<newline>\<newline>'' @ glyphLarge @ js '' more\<newline>\<newline>''
       @ [closeBracket]"
  by (simp add: norm_defs Let_def)

text \<open>
  C3 (amended). The heading mapping takes the longest prefix first. For every input, a line
  that begins with \<open>###\<close> and a space in the text that reaches the heading patterns (the
  input after trimming, line-ending clean-up and code-fence replacement) is converted with
  the small-heading glyph, never as a \<open>#\<close> or \<open>##\<close> heading, and the list and note
  patterns leave it so: the result of \<open>standardizeResponse\<close> is the inline patterns and
  the final spacing applied to the text in which that line reads glyph, space, rest of the
  line. The same holds for \<open>##\<close> with the medium glyph and for \<open>#\<close> with the large
  glyph, and for the step \<open>headings\<close> on any text. An input that is one heading line,
  without inline markup and without white space at its end, is mapped to exactly the glyph,
  a space and the rest of the line. The three glyphs differ. \<open>standardizeResponse\<close>
  maps \<open>"# Title\n\nSome text"\<close> to the large glyph followed by
  \<open>" Title\n\nSome text"\<close>.
\<close>

theorem heading_longest_prefix_first:
  assumes "lineStart pre" and "lineEnd post" and "oneLine r"
  shows "headings (pre @ js ''### '' @ r @ post)
           = headings pre @ glyphSmall @ js '' '' @ r @ headings post
     \<and> headings (pre @ js ''## '' @ r @ post)
           = headings pre @ glyphMedium @ js '' '' @ r @ headings post
     \<and> headings (pre @ js ''# '' @ r @ post)
           = headings pre @ glyphLarge @ js '' '' @ r @ headings post
     \<and> distinct [glyphSmall, glyphMedium, glyphLarge]
     \<and> standardizeResponse (js ''# Title\<newline>\<newline>Some text'')
           = glyphLarge @ js '' Title\<newline>\<newline>Some text''
     \<and> (raw \<noteq> [] \<and> codeBlocks (cleanUp raw) = pre @ js ''### '' @ r @ post \<longrightarrow>
          standardizeResponse raw
            = spacing (links (emphasis (inlineCode
                (glyphSteps pre @ glyphSmall @ js '' '' @ r @ glyphSteps post)))))
     \<and> (raw \<noteq> [] \<and> codeBlocks (cleanUp raw) = pre @ js ''## '' @ r @ post \<longrightarrow>
          standardizeResponse raw
            = spacing (links (emphasis (inlineCode
                (glyphSteps pre @ glyphMedium @ js '' '' @ r @ glyphSteps post)))))
     \<and> (raw \<noteq> [] \<and> codeBlocks (cleanUp raw) = pre @ js ''# '' @ r @ post \<longrightarrow>
          standardizeResponse raw
            = spacing (links (emphasis (inlineCode
                (glyphSteps pre @ glyphLarge @ js '' '' @ r @ glyphSteps post)))))
     \<and> (r \<noteq> [] \<and> \<not> isWhiteSpace (last r) \<and> noInlineMarkup r \<longrightarrow>
          standardizeResponse (js ''### '' @ r) = glyphSmall @ js '' '' @ r
        \<and> standardizeResponse (js ''## '' @ r) = glyphMedium @ js '' '' @ r
        \<and> standardizeResponse (js ''# '' @ r) = glyphLarge @ js '' '' @ r)"
proof -
  have lines: "oneLine (js ''### '' @ r)" "oneLine (js ''## '' @ r)" "oneLine (js ''# '' @ r)"
    using assms(3) by (rule heading_text_oneLine)+
  have small: "headings (pre @ (js ''### '' @ r) @ post)
      = headings pre @ headingLine (js ''### '' @ r) @ headings post"
    using assms(1,2) lines(1) by (rule headings_at_line)
  have medium: "headings (pre @ (js ''## '' @ r) @ post)
      = headings pre @ headingLine (js ''## '' @ r) @ headings post"
    using assms(1,2) lines(2) by (rule headings_at_line)
  have large: "headings (pre @ (js ''# '' @ r) @ post)
      = headings pre @ headingLine (js ''# '' @ r) @ headings post"
    using assms(1,2) lines(3) by (rule headings_at_line)
  have step: "headings (pre @ js ''### '' @ r @ post)
           = headings pre @ glyphSmall @ js '' '' @ r @ headings post
     \<and> headings (pre @ js ''## '' @ r @ post)
           = headings pre @ glyphMedium @ js '' '' @ r @ headings post
     \<and> headings (pre @ js ''# '' @ r @ post)
           = headings pre @ glyphLarge @ js '' '' @ r @ headings post"
    using small medium large
    by (simp add: headingLine_small headingLine_medium headingLine_large)
  have glyphs: "distinct [glyphSmall, glyphMedium, glyphLarge]"
    by (simp add: glyph_defs)
  have whole3: "raw \<noteq> [] \<and> codeBlocks (cleanUp raw) = pre @ js ''### '' @ r @ post \<longrightarrow>
          standardizeResponse raw
            = spacing (links (emphasis (inlineCode
                (glyphSteps pre @ glyphSmall @ js '' '' @ r @ glyphSteps post))))"
    using standardize_at_line [of raw pre "js ''### '' @ r" post] assms(1,2) lines(1)
    by (simp add: glyphLine_small)
  have whole2: "raw \<noteq> [] \<and> codeBlocks (cleanUp raw) = pre @ js ''## '' @ r @ post \<longrightarrow>
          standardizeResponse raw
            = spacing (links (emphasis (inlineCode
                (glyphSteps pre @ glyphMedium @ js '' '' @ r @ glyphSteps post))))"
    using standardize_at_line [of raw pre "js ''## '' @ r" post] assms(1,2) lines(2)
    by (simp add: glyphLine_medium)
  have whole1: "raw \<noteq> [] \<and> codeBlocks (cleanUp raw) = pre @ js ''# '' @ r @ post \<longrightarrow>
          standardizeResponse raw
            = spacing (links (emphasis (inlineCode
                (glyphSteps pre @ glyphLarge @ js '' '' @ r @ glyphSteps post))))"
    using standardize_at_line [of raw pre "js ''# '' @ r" post] assms(1,2) lines(3)
    by (simp add: glyphLine_large)
  have single: "r \<noteq> [] \<and> \<not> isWhiteSpace (last r) \<and> noInlineMarkup r \<longrightarrow>
          standardizeResponse (js ''### '' @ r) = glyphSmall @ js '' '' @ r
        \<and> standardizeResponse (js ''## '' @ r) = glyphMedium @ js '' '' @ r
        \<and> standardizeResponse (js ''# '' @ r) = glyphLarge @ js '' '' @ r"
    using standardize_heading_line [of r] assms(3) by blast
  from step glyphs standardize_title whole3 whole2 whole1 single show ?thesis
    by blast
qed


theorem heading_longest_prefix_first_witness:
  "lineStart (js ''intro\<newline>'') \<and> lineEnd (js ''\<newline>more'') \<and> oneLine (js ''Details'')
   \<and> js ''Details'' \<noteq> [] \<and> \<not> isWhiteSpace (last (js ''Details''))
   \<and> noInlineMarkup (js ''Details'')
   \<and> codeBlocks (cleanUp (js ''intro\<newline>### Details\<newline>more''))
       = js ''intro\<newline>'' @ js ''### '' @ js ''Details'' @ js ''\<newline>more''
   \<and> headings (js ''intro\<newline>### Details\<newline>more'')
       = js ''intro\<newline>'' @ glyphSmall @ js '' Details\<newline>more''
   \<and> standardizeResponse (js ''intro\<newline>### Details\<newline>more'')
       = js ''intro\<newline>\<newline>'' @ glyphSmall @ js '' Details\<newline>\<newline>more''
   \<and> standardizeResponse (js ''### Details'') = glyphSmall @ js '' Details''
   \<and> standardizeResponse (js ''## Sub'') = glyphMedium @ js '' Sub''
   \<and> standardizeResponse (js ''# Top'') = glyphLarge @ js '' Top''"
proof -
  have a: "lineStart (js ''intro\<newline>'')"
    by (simp add: lineStart_def js_def isLineTerminator_def)
  have b: "lineEnd (js ''\<newline>more'')"
    by (simp add: lineEnd_def js_def isLineTerminator_def)
  have c: "oneLine (js ''Details'')"
    by (simp add: oneLine_def js_def isLineTerminator_def)
  have d: "js ''Details'' \<noteq> [] \<and> \<not> isWhiteSpace (last (js ''Details''))
      \<and> noInlineMarkup (js ''Details'')"
    by (simp add: js_def isWhiteSpace_def isLineTerminator_def noInlineMarkup_def)
  have e: "js ''intro\<newline>### Details\<newline>more'' \<noteq> []
      \<and> codeBlocks (cleanUp (js ''intro\<newline>### Details\<newline>more''))
       = js ''intro\<newline>'' @ js ''### '' @ js ''Details'' @ js ''\<newline>more''"
    by (simp add: norm_defs Let_def)
  have pre: "headings (js ''intro\<newline>'') = js ''intro\<newline>''"
    by (simp add: norm_defs)
  have post: "headings (js ''\<newline>more'') = js ''\<newline>more''"
    by (simp add: norm_defs)
  have spaced: "spacing (links (emphasis (inlineCode
        (glyphSteps (js ''intro\<newline>'') @ glyphSmall @ js '' '' @ js ''Details''
         @ glyphSteps (js ''\<newline>more'')))))
      = js ''intro\<newline>\<newline>'' @ glyphSmall @ js '' Details\<newline>\<newline>more''"
    by (simp add: glyphSteps_def norm_defs Let_def)
  note main = heading_longest_prefix_first
      [OF a b c, where raw = "js ''intro\<newline>### Details\<newline>more''"]
  from main pre post
  have "headings (js ''intro\<newline>'' @ js ''### '' @ js ''Details'' @ js ''\<newline>more'')
       = js ''intro\<newline>'' @ glyphSmall @ js '' '' @ js ''Details'' @ js ''\<newline>more''"
    by simp
  then have h: "headings (js ''intro\<newline>### Details\<newline>more'')
       = js ''intro\<newline>'' @ glyphSmall @ js '' Details\<newline>more''"
    by (simp add: js_def)
  from main e
  have "standardizeResponse (js ''intro\<newline>### Details\<newline>more'')
      = spacing (links (emphasis (inlineCode
        (glyphSteps (js ''intro\<newline>'') @ glyphSmall @ js '' '' @ js ''Details''
         @ glyphSteps (js ''\<newline>more'')))))"
    by blast
  with spaced have w: "standardizeResponse (js ''intro\<newline>### Details\<newline>more'')
       = js ''intro\<newline>\<newline>'' @ glyphSmall @ js '' Details\<newline>\<newline>more''"
    by simp
  from main d
  have "standardizeResponse (js ''### '' @ js ''Details'') = glyphSmall @ js '' '' @ js ''Details''"
    by blast
  then have s3: "standardizeResponse (js ''### Details'') = glyphSmall @ js '' Details''"
    by (simp add: js_def)
  have n: "lineStart []" "lineEnd []" "oneLine (js ''Sub'')" "oneLine (js ''Top'')"
    by (simp_all add: lineStart_def lineEnd_def oneLine_def js_def isLineTerminator_def)
  have e2: "js ''## Sub'' \<noteq> [] \<and> codeBlocks (cleanUp (js ''## Sub'')) = [] @ js ''## '' @ js ''Sub'' @ []"
    by (simp add: norm_defs Let_def)
  have e1: "js ''# Top'' \<noteq> [] \<and> codeBlocks (cleanUp (js ''# Top'')) = [] @ js ''# '' @ js ''Top'' @ []"
    by (simp add: norm_defs Let_def)
  have spaced2: "spacing (links (emphasis (inlineCode
        (glyphSteps [] @ glyphMedium @ js '' '' @ js ''Sub'' @ glyphSteps []))))
      = glyphMedium @ js '' Sub''"
    by (simp add: glyphSteps_def norm_defs Let_def)
  have spaced1: "spacing (links (emphasis (inlineCode
        (glyphSteps [] @ glyphLarge @ js '' '' @ js ''Top'' @ glyphSteps []))))
      = glyphLarge @ js '' Top''"
    by (simp add: glyphSteps_def norm_defs Let_def)
  from heading_longest_prefix_first [OF n(1,2,3), where raw = "js ''## Sub''"] e2
  have "standardizeResponse (js ''## Sub'')
      = spacing (links (emphasis (inlineCode
        (glyphSteps [] @ glyphMedium @ js '' '' @ js ''Sub'' @ glyphSteps []))))"
    by blast
  with spaced2 have s2: "standardizeResponse (js ''## Sub'') = glyphMedium @ js '' Sub''"
    by simp
  from heading_longest_prefix_first [OF n(1,2,4), where raw = "js ''# Top''"] e1
  have "standardizeResponse (js ''# Top'')
      = spacing (links (emphasis (inlineCode
        (glyphSteps [] @ glyphLarge @ js '' '' @ js ''Top'' @ glyphSteps []))))"
    by blast
  with spaced1 have s1: "standardizeResponse (js ''# Top'') = glyphLarge @ js '' Top''"
    by simp
  from a b c d e h w s3 s2 s1 show ?thesis by blast
qed

text \<open>
  C5. The heading, list and note substitutions are the part \<open>glyphSteps\<close> of
  \<open>standardizeResponse\<close>. Applied to their own output they change nothing, and in any
  text (so also in the output of an earlier normalization) a line that already starts with
  one of the six glyphs is left as it is: no glyph is put in front of it a second time.
\<close>

theorem glyph_steps_idempotent:
  "standardizeResponse text =
     (if text = [] then []
      else spacing (links (emphasis (inlineCode (glyphSteps (codeBlocks (cleanUp text)))))))
   \<and> glyphSteps (glyphSteps t) = glyphSteps t
   \<and> (lineStart pre \<and> lineEnd post \<and> oneLine l \<and> carriesGlyph l \<longrightarrow>
        glyphSteps (pre @ l @ post) = glyphSteps pre @ l @ glyphSteps post)"
proof -
  have std: "standardizeResponse text =
     (if text = [] then []
      else spacing (links (emphasis (inlineCode (glyphSteps (codeBlocks (cleanUp text)))))))"
    by (simp add: standardizeResponse_def glyphSteps_def)
  have "glyphSteps (glyphSteps t) = replaceLines (\<lambda>l. glyphLine (glyphLine l)) t"
    unfolding glyphSteps_lines by (rule replaceLines_compose) (rule oneLine_glyphLine)
  then have idem: "glyphSteps (glyphSteps t) = glyphSteps t"
    by (simp add: glyphLine_idem glyphSteps_lines)
  have kept: "lineStart pre \<and> lineEnd post \<and> oneLine l \<and> carriesGlyph l \<longrightarrow>
        glyphSteps (pre @ l @ post) = glyphSteps pre @ l @ glyphSteps post"
  proof
    assume h: "lineStart pre \<and> lineEnd post \<and> oneLine l \<and> carriesGlyph l"
    then have "replaceLines glyphLine (pre @ l @ post)
        = replaceLines glyphLine pre @ glyphLine l @ replaceLines glyphLine post"
      using glyphLine_Nil by (simp add: replaceLines_at_line)
    moreover from h have "glyphLine l = l"
      by (simp add: marked_glyphLine carriesGlyph_marked)
    ultimately show "glyphSteps (pre @ l @ post) = glyphSteps pre @ l @ glyphSteps post"
      by (simp add: glyphSteps_lines)
  qed
  from std idem kept show ?thesis by blast
qed

theorem glyph_steps_idempotent_witness:
  "lineStart [] \<and> lineEnd (js ''\<newline>\<newline>- x'') \<and> oneLine (glyphLarge @ js '' Title'')
   \<and> carriesGlyph (glyphLarge @ js '' Title'')
   \<and> glyphSteps (glyphLarge @ js '' Title\<newline>\<newline>- x'')
       = glyphLarge @ js '' Title\<newline>\<newline>'' @ glyphBullet @ js '' x''"
proof -
  have a: "lineStart []"
    by (simp add: lineStart_def)
  have b: "lineEnd (js ''\<newline>\<newline>- x'')"
    by (simp add: lineEnd_def js_def isLineTerminator_def)
  have c: "oneLine (glyphLarge @ js '' Title'')"
    by (simp add: oneLine_def js_def glyphLarge_def isLineTerminator_def)
  have d: "carriesGlyph (glyphLarge @ js '' Title'')"
    by (simp add: carriesGlyph_def startsWith_def glyph_defs)
  have post: "glyphSteps (js ''\<newline>\<newline>- x'') = js ''\<newline>\<newline>'' @ glyphBullet @ js '' x''"
    by (simp add: glyphSteps_def norm_defs Let_def)
  have pre: "glyphSteps [] = []"
    by (simp add: glyphSteps_def norm_defs Let_def)
  from glyph_steps_idempotent
      [where pre = "[]" and post = "js ''\<newline>\<newline>- x''" and l = "glyphLarge @ js '' Title''"]
    a b c d
  have "glyphSteps ([] @ (glyphLarge @ js '' Title'') @ js ''\<newline>\<newline>- x'')
      = glyphSteps [] @ (glyphLarge @ js '' Title'') @ glyphSteps (js ''\<newline>\<newline>- x'')"
    by blast
  with pre post have "glyphSteps (glyphLarge @ js '' Title\<newline>\<newline>- x'')
       = glyphLarge @ js '' Title\<newline>\<newline>'' @ glyphBullet @ js '' x''"
    by (simp add: js_def)
  with a b c d show ?thesis by simp
qed

text \<open>
  The whole of \<open>standardizeResponse\<close> is not idempotent: removing a link can uncover a
  heading marker, which a second run converts. No glyph is doubled by that.
\<close>

lemma standardize_not_idempotent:
  "standardizeResponse (js ''[# a](u)'') = js ''# a''
   \<and> standardizeResponse (standardizeResponse (js ''[# a](u)'')) = glyphLarge @ js '' a''"
proof -
  have 1: "standardizeResponse (js ''[# a](u)'') = js ''# a''"
    by (simp add: norm_defs Let_def)
  have 2: "standardizeResponse (js ''# a'') = glyphLarge @ js '' a''"
    by (simp add: norm_defs Let_def)
  from 1 2 show ?thesis by simp
qed

text \<open>
  C6 (the code at a failing input). The block \<open>```sh ... ```\<close> with the lines \<open>ls\<close>
  and \<open># done\<close> is replaced by its inner text between the corner brackets, and the
  heading substitution that follows turns the line \<open># done\<close> of the inner text into a
  large heading.
\<close>

theorem code_block_inner_text_altered:
  "codeBlocks (cleanUp (js ''```sh\<newline>ls\<newline># done\<newline>```''))
     = openBracket # js ''ls\<newline># done\<newline>'' @ [closeBracket]
   \<and> standardizeResponse (js ''```sh\<newline>ls\<newline># done\<newline>```'')
     = openBracket # js ''ls\<newline>\<newline>'' @ glyphLarge @ js '' done\<newline>\<newline>''
       @ [closeBracket]"
  by (simp add: norm_defs Let_def)

end
